theory Spec2Isabelle
  imports Main "HOL-Library.Word" "HOL-Library.Sublist"
begin

unbundle bit_operations_syntax

section \<open>Bytes and strings\<close>

text \<open>
  Go strings and byte slices are sequences of bytes. A \<^typ>\<open>string\<close> is a list of
  8-bit characters, so the request body, the header values and the secret are all
  \<^typ>\<open>string\<close>; \<open>bytes_of\<close> is the conversion \<^verbatim>\<open>[]byte(s)\<close>.
\<close>

type_synonym byte = "8 word"
type_synonym u32 = "32 word"

definition bytes_of :: "string \<Rightarrow> byte list" where
  "bytes_of s = map of_char s"

section \<open>crypto/sha256, crypto/hmac, encoding/hex\<close>

text \<open>
  The handler authenticates with \<^verbatim>\<open>hmac.New(sha256.New, secret)\<close>. SHA-256 follows
  FIPS 180-4 and HMAC follows RFC 2104 (block size 64); both are checked against
  published test vectors below.
\<close>

definition rotr :: "nat \<Rightarrow> u32 \<Rightarrow> u32" where
  "rotr n x = drop_bit n x OR push_bit (32 - n) x"

text \<open>The round constants and the initial hash value of FIPS 180-4, sections 4.2.2 and
  5.3.3, as decimal numerals.\<close>

definition sha_K :: "u32 list" where
  "sha_K = [
   1116352408, 1899447441, 3049323471, 3921009573, 961987163, 1508970993, 2453635748, 2870763221,
   3624381080, 310598401, 607225278, 1426881987, 1925078388, 2162078206, 2614888103, 3248222580,
   3835390401, 4022224774, 264347078, 604807628, 770255983, 1249150122, 1555081692, 1996064986,
   2554220882, 2821834349, 2952996808, 3210313671, 3336571891, 3584528711, 113926993, 338241895,
   666307205, 773529912, 1294757372, 1396182291, 1695183700, 1986661051, 2177026350, 2456956037,
   2730485921, 2820302411, 3259730800, 3345764771, 3516065817, 3600352804, 4094571909, 275423344,
   430227734, 506948616, 659060556, 883997877, 958139571, 1322822218, 1537002063, 1747873779,
   1955562222, 2024104815, 2227730452, 2361852424, 2428436474, 2756734187, 3204031479, 3329325298]"

definition sha_H0 :: "u32 list" where
  "sha_H0 = [1779033703, 3144134277, 1013904242, 2773480762,
             1359893119, 2600822924, 528734635, 1541459225]"

definition be32 :: "byte list \<Rightarrow> u32" where
  "be32 bs = foldl (\<lambda>acc b. push_bit 8 acc OR ucast b) 0 bs"

fun chunks :: "nat \<Rightarrow> 'a list \<Rightarrow> 'a list list" where
  "chunks n [] = []"
| "chunks n xs = (if n = 0 then [xs] else take n xs # chunks n (drop n xs))"

definition ssig0 :: "u32 \<Rightarrow> u32" where
  "ssig0 x = rotr 7 x XOR rotr 18 x XOR drop_bit 3 x"

definition ssig1 :: "u32 \<Rightarrow> u32" where
  "ssig1 x = rotr 17 x XOR rotr 19 x XOR drop_bit 10 x"

definition bsig0 :: "u32 \<Rightarrow> u32" where
  "bsig0 x = rotr 2 x XOR rotr 13 x XOR rotr 22 x"

definition bsig1 :: "u32 \<Rightarrow> u32" where
  "bsig1 x = rotr 6 x XOR rotr 11 x XOR rotr 25 x"

definition ch :: "u32 \<Rightarrow> u32 \<Rightarrow> u32 \<Rightarrow> u32" where
  "ch x y z = (x AND y) XOR (NOT x AND z)"

definition maj :: "u32 \<Rightarrow> u32 \<Rightarrow> u32 \<Rightarrow> u32" where
  "maj x y z = (x AND y) XOR (x AND z) XOR (y AND z)"

text \<open>
  The message schedule is kept newest-first: after \<open>t\<close> words the head is \<open>W\<^sub>t\<^sub>-\<^sub>1\<close>, so
  \<open>W\<^sub>t\<^sub>-\<^sub>2\<close>, \<open>W\<^sub>t\<^sub>-\<^sub>7\<close>, \<open>W\<^sub>t\<^sub>-\<^sub>1\<^sub>5\<close> and \<open>W\<^sub>t\<^sub>-\<^sub>1\<^sub>6\<close> sit at positions 1, 6, 14 and 15.
\<close>

fun schedule :: "nat \<Rightarrow> u32 list \<Rightarrow> u32 list" where
  "schedule 0 ws = ws"
| "schedule (Suc n) ws =
     schedule n ((ssig1 (ws ! 1) + ws ! 6 + ssig0 (ws ! 14) + ws ! 15) # ws)"

fun round_t1 :: "u32 list \<Rightarrow> u32 \<Rightarrow> u32 \<Rightarrow> u32" where
  "round_t1 [a, b, c, d, e, f, g, h] k w = h + bsig1 e + ch e f g + k + w"
| "round_t1 st _ _ = 0"

fun round_t2 :: "u32 list \<Rightarrow> u32" where
  "round_t2 (a # b # c # _) = bsig0 a + maj a b c"
| "round_t2 st = 0"

fun round_out :: "u32 list \<Rightarrow> u32 \<Rightarrow> u32 \<Rightarrow> u32 list" where
  "round_out [a, b, c, d, e, f, g, h] t1 t2 = [t1 + t2, a, b, c, d + t1, e, f, g]"
| "round_out st _ _ = st"

definition round_step :: "u32 list \<Rightarrow> u32 \<times> u32 \<Rightarrow> u32 list" where
  "round_step st kw = round_out st (round_t1 st (fst kw) (snd kw)) (round_t2 st)"

definition compress :: "u32 list \<Rightarrow> byte list \<Rightarrow> u32 list" where
  "compress hs block =
     map2 (+) hs
       (foldl round_step hs
          (zip sha_K (rev (schedule 48 (rev (map be32 (chunks 4 block)))))))"

definition be_bytes4 :: "u32 \<Rightarrow> byte list" where
  "be_bytes4 w = [ucast (drop_bit 24 w), ucast (drop_bit 16 w), ucast (drop_bit 8 w), ucast w]"

definition be_bytes8 :: "64 word \<Rightarrow> byte list" where
  "be_bytes8 w =
     [ucast (drop_bit 56 w), ucast (drop_bit 48 w), ucast (drop_bit 40 w), ucast (drop_bit 32 w),
      ucast (drop_bit 24 w), ucast (drop_bit 16 w), ucast (drop_bit 8 w), ucast w]"

definition sha_pad :: "byte list \<Rightarrow> byte list" where
  "sha_pad m =
     m @ [0x80] @ replicate ((119 - length m mod 64) mod 64) 0
       @ be_bytes8 (8 * of_nat (length m))"

definition sha256 :: "byte list \<Rightarrow> byte list" where
  "sha256 m = concat (map be_bytes4 (foldl compress sha_H0 (chunks 64 (sha_pad m))))"

definition hmac_key :: "byte list \<Rightarrow> byte list" where
  "hmac_key key =
     (if length key > 64 then sha256 key else key)
       @ replicate (64 - length (if length key > 64 then sha256 key else key)) 0"

definition hmac_sha256 :: "byte list \<Rightarrow> byte list \<Rightarrow> byte list" where
  "hmac_sha256 key msg =
     sha256 (map (\<lambda>b. b XOR 0x5c) (hmac_key key)
             @ sha256 (map (\<lambda>b. b XOR 0x36) (hmac_key key) @ msg))"

text \<open>\<^verbatim>\<open>hex.EncodeToString\<close>: two lower-case digits per byte, from the table
  \<^verbatim>\<open>"0123456789abcdef"\<close>.\<close>

definition hextable :: string where
  "hextable = ''0123456789abcdef''"

definition hex_EncodeToString :: "byte list \<Rightarrow> string" where
  "hex_EncodeToString src =
     concat (map (\<lambda>v. [hextable ! unat (drop_bit 4 v), hextable ! unat (v AND 0x0f)]) src)"

text \<open>
  \<^verbatim>\<open>hmac.Equal\<close> is \<^verbatim>\<open>subtle.ConstantTimeCompare(a, b) == 1\<close>: unequal lengths give 0,
  otherwise the XOR of every byte pair is OR-ed into one accumulator, which is compared
  with zero at the end.
\<close>

definition ConstantTimeCompare :: "byte list \<Rightarrow> byte list \<Rightarrow> nat" where
  "ConstantTimeCompare x y =
     (if length x \<noteq> length y then 0
      else if foldl (\<lambda>v (a, b). v OR (a XOR b)) 0 (zip x y) = 0 then 1 else 0)"

definition hmac_Equal :: "byte list \<Rightarrow> byte list \<Rightarrow> bool" where
  "hmac_Equal mac1 mac2 = (ConstantTimeCompare mac1 mac2 = 1)"

section \<open>verifySignature\<close>

text \<open>
  The error of the source is \<open>Some message\<close>; \<open>None\<close> is \<^verbatim>\<open>nil\<close>. The secret is the
  package variable \<^verbatim>\<open>webhookSecret\<close>, set once by \<^verbatim>\<open>init\<close>; it is passed explicitly.
\<close>

definition verifySignature :: "string \<Rightarrow> string \<Rightarrow> string \<Rightarrow> string option" where
  "verifySignature webhookSecret body signature =
     (if signature = [] \<or> length signature < 7 \<or> take 7 signature \<noteq> ''sha256=''
      then Some ''missing or invalid signature''
      else if \<not> hmac_Equal
                 (bytes_of (hex_EncodeToString
                    (hmac_sha256 (bytes_of webhookSecret) (bytes_of body))))
                 (bytes_of (drop 7 signature))
      then Some ''signature mismatch''
      else None)"

text \<open>\<^verbatim>\<open>strings.ToUpper\<close> on ASCII text, used to present a digest in upper-case hex.\<close>

definition toUpper :: "char \<Rightarrow> char" where
  "toUpper c =
     (if of_char c \<ge> (97::nat) \<and> of_char c \<le> (122::nat) then char_of (of_char c - (32::nat)) else c)"

text \<open>The header value a sender computes for a body: \<^verbatim>\<open>sha256=<hex HMAC>\<close>.\<close>

definition sign :: "string \<Rightarrow> string \<Rightarrow> string" where
  "sign secret body =
     ''sha256='' @ hex_EncodeToString (hmac_sha256 (bytes_of secret) (bytes_of body))"

text \<open>A single-bit mutation of a byte string: bit \<open>b\<close> of the byte at index \<open>i\<close> is flipped.\<close>

definition flipBit :: "nat \<Rightarrow> nat \<Rightarrow> string \<Rightarrow> string" where
  "flipBit i b s = s[i := char_of ((of_char (s ! i) :: nat) XOR 2 ^ b)]"

section \<open>encoding/json: decoding the payload\<close>

text \<open>
  \<^verbatim>\<open>json.Unmarshal(body, &payload)\<close> first checks that the whole input is one valid
  JSON text (RFC 8259, nesting at most 10000 deep) and then decodes it into the struct.
  The lexer is a byte-at-a-time state machine like Go's scanner; the parser is a pushdown
  automaton over the tokens; strings are unquoted as Go does (escapes, surrogate pairs,
  the replacement character for invalid UTF-8).
\<close>

datatype json =
    JNull
  | JBool bool
  | JNumber string
  | JString string
  | JArray "json list"
  | JObject "(string \<times> json) list"

datatype token =
    TLBrace | TRBrace | TLBrack | TRBrack | TColon | TComma
  | TStr string
  | TNum string
  | TLit json

datatype lexmode =
    LIdle
  | LStr string
  | LEsc string
  | LHex string nat
  | LNum string
  | LLit string json

definition is_space :: "char \<Rightarrow> bool" where
  "is_space c = (c = CHR '' '' \<or> c = CHR 0x09 \<or> c = CHR 0x0A \<or> c = CHR 0x0D)"

definition is_digit :: "char \<Rightarrow> bool" where
  "is_digit c = ((48::nat) \<le> of_char c \<and> of_char c \<le> (57::nat))"

definition is_hex :: "char \<Rightarrow> bool" where
  "is_hex c =
     (is_digit c \<or> ((97::nat) \<le> of_char c \<and> of_char c \<le> (102::nat))
      \<or> ((65::nat) \<le> of_char c \<and> of_char c \<le> (70::nat)))"

definition is_numchar :: "char \<Rightarrow> bool" where
  "is_numchar c =
     (is_digit c \<or> c = CHR ''-'' \<or> c = CHR ''+'' \<or> c = CHR ''.'' \<or> c = CHR ''e'' \<or> c = CHR ''E'')"

definition lex_start :: "char \<Rightarrow> (lexmode \<times> token list) option" where
  "lex_start c =
     (if is_space c then Some (LIdle, [])
      else if c = CHR ''{'' then Some (LIdle, [TLBrace])
      else if c = CHR ''}'' then Some (LIdle, [TRBrace])
      else if c = CHR ''['' then Some (LIdle, [TLBrack])
      else if c = CHR '']'' then Some (LIdle, [TRBrack])
      else if c = CHR '':'' then Some (LIdle, [TColon])
      else if c = CHR '','' then Some (LIdle, [TComma])
      else if c = CHR 0x22 then Some (LStr [], [])
      else if c = CHR ''-'' \<or> is_digit c then Some (LNum [c], [])
      else if c = CHR ''t'' then Some (LLit ''rue'' (JBool True), [])
      else if c = CHR ''f'' then Some (LLit ''alse'' (JBool False), [])
      else if c = CHR ''n'' then Some (LLit ''ull'' JNull, [])
      else None)"

text \<open>String tokens keep the raw text between the quotes; escapes are checked here and
  decoded by \<open>unquote\<close>.\<close>

fun lex :: "lexmode \<Rightarrow> string \<Rightarrow> token list option" where
  "lex LIdle [] = Some []"
| "lex (LNum n) [] = Some [TNum n]"
| "lex (LStr s) [] = None"
| "lex (LEsc s) [] = None"
| "lex (LHex s k) [] = None"
| "lex (LLit r v) [] = None"
| "lex LIdle (c # cs) =
     (case lex_start c of
        None \<Rightarrow> None
      | Some (m, ts) \<Rightarrow> map_option ((@) ts) (lex m cs))"
| "lex (LStr s) (c # cs) =
     (if c = CHR 0x22 then map_option ((#) (TStr s)) (lex LIdle cs)
      else if c = CHR 0x5C then lex (LEsc (s @ [c])) cs
      else if of_char c < (0x20::nat) then None
      else lex (LStr (s @ [c])) cs)"
| "lex (LEsc s) (c # cs) =
     (if c = CHR ''u'' then lex (LHex (s @ [c]) 4) cs
      else if c \<in> set [CHR 0x22, CHR 0x5C, CHR ''/'', CHR ''b'', CHR ''f'', CHR ''n'', CHR ''r'', CHR ''t'']
      then lex (LStr (s @ [c])) cs
      else None)"
| "lex (LHex s k) (c # cs) =
     (if \<not> is_hex c then None
      else if k \<le> 1 then lex (LStr (s @ [c])) cs
      else lex (LHex (s @ [c]) (k - 1)) cs)"
| "lex (LNum n) (c # cs) =
     (if is_numchar c then lex (LNum (n @ [c])) cs
      else (case lex_start c of
              None \<Rightarrow> None
            | Some (m, ts) \<Rightarrow> map_option ((@) (TNum n # ts)) (lex m cs)))"
| "lex (LLit r v) (c # cs) =
     (case r of
        [] \<Rightarrow> None
      | x # xs \<Rightarrow>
          if c \<noteq> x then None
          else if xs = [] then map_option ((#) (TLit v)) (lex LIdle cs)
          else lex (LLit xs v) cs)"

text \<open>The number grammar: \<^verbatim>\<open>-?(0|[1-9][0-9]*)(\.[0-9]+)?([eE][+-]?[0-9]+)?\<close>.\<close>

definition valid_exp :: "string \<Rightarrow> bool" where
  "valid_exp r =
     (case r of
        [] \<Rightarrow> True
      | c # r1 \<Rightarrow>
          (c = CHR ''e'' \<or> c = CHR ''E'') \<and>
          (case r1 of
             [] \<Rightarrow> False
           | d # r2 \<Rightarrow>
               if d = CHR ''+'' \<or> d = CHR ''-'' then r2 \<noteq> [] \<and> list_all is_digit r2
               else list_all is_digit r1))"

definition valid_frac :: "string \<Rightarrow> bool" where
  "valid_frac r =
     (case r of
        [] \<Rightarrow> True
      | c # r1 \<Rightarrow>
          if c = CHR ''.'' then takeWhile is_digit r1 \<noteq> [] \<and> valid_exp (dropWhile is_digit r1)
          else valid_exp r)"

definition valid_int :: "string \<Rightarrow> bool" where
  "valid_int s =
     (case s of
        [] \<Rightarrow> False
      | c # r \<Rightarrow>
          if c = CHR ''0'' then valid_frac r
          else is_digit c \<and> valid_frac (dropWhile is_digit r))"

definition valid_number :: "string \<Rightarrow> bool" where
  "valid_number s =
     (case s of
        [] \<Rightarrow> False
      | c # r \<Rightarrow> if c = CHR ''-'' then valid_int r else valid_int s)"

definition valid_token :: "token \<Rightarrow> bool" where
  "valid_token t = (case t of TNum n \<Rightarrow> valid_number n | _ \<Rightarrow> True)"

subsection \<open>Unquoting\<close>

definition hexval :: "char \<Rightarrow> nat" where
  "hexval c =
     (if is_digit c then of_char c - 48
      else if (97::nat) \<le> of_char c then of_char c - 87
      else of_char c - 55)"

definition getu4 :: "string \<Rightarrow> nat option" where
  "getu4 s =
     (case s of
        b # u # h1 # h2 # h3 # h4 # _ \<Rightarrow>
          if b = CHR 0x5C \<and> u = CHR ''u'' \<and> is_hex h1 \<and> is_hex h2 \<and> is_hex h3 \<and> is_hex h4
          then Some (((hexval h1 * 16 + hexval h2) * 16 + hexval h3) * 16 + hexval h4)
          else None
      | _ \<Rightarrow> None)"

text \<open>\<^verbatim>\<open>utf8.EncodeRune\<close>; surrogates and values above U+10FFFF become U+FFFD.\<close>

definition EncodeRune :: "nat \<Rightarrow> string" where
  "EncodeRune r =
     (if r < 0x80 then [char_of r]
      else if r < 0x800 then [char_of (0xC0 + r div 64), char_of (0x80 + r mod 64)]
      else if (0xD800 \<le> r \<and> r < 0xE000) \<or> 0x10FFFF < r then [CHR 0xEF, CHR 0xBF, CHR 0xBD]
      else if r < 0x10000
      then [char_of (0xE0 + r div 4096), char_of (0x80 + r div 64 mod 64), char_of (0x80 + r mod 64)]
      else [char_of (0xF0 + r div 262144), char_of (0x80 + r div 4096 mod 64),
            char_of (0x80 + r div 64 mod 64), char_of (0x80 + r mod 64)])"

definition is_cont :: "char \<Rightarrow> bool" where
  "is_cont c = ((0x80::nat) \<le> of_char c \<and> of_char c \<le> (0xBF::nat))"

text \<open>The length of the well-formed UTF-8 sequence a non-ASCII text starts with, as
  \<^verbatim>\<open>utf8.DecodeRune\<close> accepts it; 0 when it starts with an invalid byte.\<close>

definition utf8_len :: "string \<Rightarrow> nat" where
  "utf8_len s =
     (case s of
        [] \<Rightarrow> 0
      | b0 # r0 \<Rightarrow>
          (let x = (of_char b0 :: nat) in
           if x < 0xC2 \<or> 0xF4 < x then 0
           else (case r0 of
                   [] \<Rightarrow> 0
                 | b1 # r1 \<Rightarrow>
                     (let y = (of_char b1 :: nat);
                          lo = (if x = 0xE0 then 0xA0 else if x = 0xF0 then 0x90 else 0x80);
                          hi = (if x = 0xED then 0x9F else if x = 0xF4 then 0x8F else 0xBF)
                      in if y < lo \<or> hi < y then 0
                         else if x < 0xE0 then 2
                         else (case r1 of
                                 [] \<Rightarrow> 0
                               | b2 # r2 \<Rightarrow>
                                   if \<not> is_cont b2 then 0
                                   else if x < 0xF0 then 3
                                   else (case r2 of
                                           [] \<Rightarrow> 0
                                         | b3 # _ \<Rightarrow> if is_cont b3 then 4 else 0))))))"

definition unescape :: "char \<Rightarrow> char" where
  "unescape c =
     (if c = CHR ''b'' then CHR 0x08
      else if c = CHR ''f'' then CHR 0x0C
      else if c = CHR ''n'' then CHR 0x0A
      else if c = CHR ''r'' then CHR 0x0D
      else if c = CHR ''t'' then CHR 0x09
      else c)"

definition is_surrogate :: "nat \<Rightarrow> bool" where
  "is_surrogate r = (0xD800 \<le> r \<and> r < 0xE000)"

text \<open>\<^verbatim>\<open>utf16.DecodeRune\<close>: a high and a low surrogate give one code point.\<close>

definition utf16_DecodeRune :: "nat \<Rightarrow> nat \<Rightarrow> nat option" where
  "utf16_DecodeRune r1 r2 =
     (if 0xD800 \<le> r1 \<and> r1 < 0xDC00 \<and> 0xDC00 \<le> r2 \<and> r2 < 0xE000
      then Some ((r1 - 0xD800) * 1024 + (r2 - 0xDC00) + 0x10000)
      else None)"

function unquote :: "string \<Rightarrow> string" where
  "unquote s =
     (case s of
        [] \<Rightarrow> []
      | c # cs \<Rightarrow>
          if c = CHR 0x5C then
            (case getu4 s of
               Some rr \<Rightarrow>
                 (if is_surrogate rr then
                    (case (case getu4 (drop 6 s) of None \<Rightarrow> None | Some rr1 \<Rightarrow> utf16_DecodeRune rr rr1) of
                       Some dec \<Rightarrow> EncodeRune dec @ unquote (drop 12 s)
                     | None \<Rightarrow> [CHR 0xEF, CHR 0xBF, CHR 0xBD] @ unquote (drop 6 s))
                  else EncodeRune rr @ unquote (drop 6 s))
             | None \<Rightarrow>
                 (case cs of
                    [] \<Rightarrow> []
                  | e # r \<Rightarrow> unescape e # unquote r))
          else if of_char c < (0x80::nat) then c # unquote cs
          else if utf8_len s = 0 then [CHR 0xEF, CHR 0xBF, CHR 0xBD] @ unquote cs
          else take (utf8_len s) s @ unquote (drop (utf8_len s) s))"
  by pat_completeness auto
termination
  by (relation "measure length") (auto split: list.splits)

declare unquote.simps [simp del]

subsection \<open>Parsing\<close>

datatype frame =
    FArr "json list"
  | FObj "(string \<times> json) list"
  | FKey "(string \<times> json) list" string

datatype expect = EValue | EValueOrClose | EKeyOrClose | EKey | EColon | ECommaOrClose | EDone

record pstate =
  stack :: "frame list"
  expecting :: expect
  result :: "json option"

definition maxNestingDepth :: nat where
  "maxNestingDepth = 10000"

definition push_value :: "json \<Rightarrow> frame list \<Rightarrow> pstate option" where
  "push_value v st =
     (case st of
        [] \<Rightarrow> Some \<lparr>stack = [], expecting = EDone, result = Some v\<rparr>
      | FArr xs # fs \<Rightarrow> Some \<lparr>stack = FArr (xs @ [v]) # fs, expecting = ECommaOrClose, result = None\<rparr>
      | FKey kvs k # fs \<Rightarrow>
          Some \<lparr>stack = FObj (kvs @ [(k, v)]) # fs, expecting = ECommaOrClose, result = None\<rparr>
      | FObj kvs # fs \<Rightarrow> None)"

definition begin_value :: "token \<Rightarrow> frame list \<Rightarrow> pstate option" where
  "begin_value t st =
     (case t of
        TStr s \<Rightarrow> push_value (JString (unquote s)) st
      | TNum n \<Rightarrow> push_value (JNumber n) st
      | TLit v \<Rightarrow> push_value v st
      | TLBrack \<Rightarrow>
          if length st < maxNestingDepth
          then Some \<lparr>stack = FArr [] # st, expecting = EValueOrClose, result = None\<rparr>
          else None
      | TLBrace \<Rightarrow>
          if length st < maxNestingDepth
          then Some \<lparr>stack = FObj [] # st, expecting = EKeyOrClose, result = None\<rparr>
          else None
      | _ \<Rightarrow> None)"

definition close_frame :: "token \<Rightarrow> frame list \<Rightarrow> pstate option" where
  "close_frame t st =
     (case st of
        FArr xs # fs \<Rightarrow> if t = TRBrack then push_value (JArray xs) fs else None
      | FObj kvs # fs \<Rightarrow> if t = TRBrace then push_value (JObject kvs) fs else None
      | _ \<Rightarrow> None)"

definition begin_key :: "token \<Rightarrow> frame list \<Rightarrow> pstate option" where
  "begin_key t st =
     (case (t, st) of
        (TStr k, FObj kvs # fs) \<Rightarrow>
          Some \<lparr>stack = FKey kvs (unquote k) # fs, expecting = EColon, result = None\<rparr>
      | _ \<Rightarrow> None)"

definition pstep :: "pstate \<Rightarrow> token \<Rightarrow> pstate option" where
  "pstep p t =
     (case expecting p of
        EValue \<Rightarrow> begin_value t (stack p)
      | EValueOrClose \<Rightarrow>
          if t = TRBrack then close_frame t (stack p) else begin_value t (stack p)
      | EKeyOrClose \<Rightarrow>
          if t = TRBrace then close_frame t (stack p) else begin_key t (stack p)
      | EKey \<Rightarrow> begin_key t (stack p)
      | EColon \<Rightarrow> if t = TColon then Some (p\<lparr>expecting := EValue\<rparr>) else None
      | ECommaOrClose \<Rightarrow>
          if t = TComma
          then (case stack p of
                  FArr xs # fs \<Rightarrow> Some (p\<lparr>expecting := EValue\<rparr>)
                | FObj kvs # fs \<Rightarrow> Some (p\<lparr>expecting := EKey\<rparr>)
                | _ \<Rightarrow> None)
          else close_frame t (stack p)
      | EDone \<Rightarrow> None)"

fun prun :: "pstate \<Rightarrow> token list \<Rightarrow> json option" where
  "prun p [] = (if expecting p = EDone then result p else None)"
| "prun p (t # ts) = (case pstep p t of None \<Rightarrow> None | Some p' \<Rightarrow> prun p' ts)"

definition json_parse :: "string \<Rightarrow> json option" where
  "json_parse s =
     (case lex LIdle s of
        None \<Rightarrow> None
      | Some ts \<Rightarrow>
          if list_all valid_token ts
          then prun \<lparr>stack = [], expecting = EValue, result = None\<rparr> ts
          else None)"

subsection \<open>Decoding into the struct\<close>

text \<open>
  \<^verbatim>\<open>type GitHubWebhookPayload struct { Ref string `json:"ref"`;
  Repository struct { Name string `json:"name"` } `json:"repository"` }\<close>
\<close>

record Repository_t =
  Name :: string

record GitHubWebhookPayload =
  Ref :: string
  Repository :: Repository_t

datatype json_error = SyntaxError | UnmarshalTypeError

text \<open>
  A key selects a field when it equals the field's JSON name exactly or after folding.
  Go's \<^verbatim>\<open>foldName\<close> maps every rune to the smallest rune of its simple case-folding
  orbit: ASCII letters to upper case, the long s (U+017F) to \<open>S\<close> and the Kelvin sign
  (U+212A) to \<open>K\<close>; no other rune folds to an ASCII one, and the field names are ASCII.
\<close>

function foldName :: "string \<Rightarrow> string" where
  "foldName s =
     (case s of
        [] \<Rightarrow> []
      | c # cs \<Rightarrow>
          if take 2 s = [CHR 0xC5, CHR 0xBF] then CHR ''S'' # foldName (drop 2 s)
          else if take 3 s = [CHR 0xE2, CHR 0x84, CHR 0xAA] then CHR ''K'' # foldName (drop 3 s)
          else (if (97::nat) \<le> of_char c \<and> of_char c \<le> (122::nat)
                then char_of (of_char c - (32::nat)) else c) # foldName cs)"
  by pat_completeness auto
termination
  by (relation "measure length") auto

declare foldName.simps [simp del]

definition field_matches :: "string \<Rightarrow> string \<Rightarrow> bool" where
  "field_matches name key = (key = name \<or> foldName key = foldName name)"

text \<open>A JSON string sets a string field, \<^verbatim>\<open>null\<close> leaves it, any other value is an
  \<^verbatim>\<open>UnmarshalTypeError\<close>; decoding goes on and the error is returned at the end.\<close>

definition set_string :: "json \<Rightarrow> string \<times> bool \<Rightarrow> string \<times> bool" where
  "set_string v cur =
     (case v of
        JString s \<Rightarrow> (s, snd cur)
      | JNull \<Rightarrow> cur
      | _ \<Rightarrow> (fst cur, False))"

definition decode_Repository_field ::
  "Repository_t \<times> bool \<Rightarrow> string \<times> json \<Rightarrow> Repository_t \<times> bool" where
  "decode_Repository_field acc kv =
     (if field_matches ''name'' (fst kv)
      then (\<lparr>Name = fst (set_string (snd kv) (Name (fst acc), snd acc))\<rparr>,
            snd (set_string (snd kv) (Name (fst acc), snd acc)))
      else acc)"

definition decode_Repository :: "json \<Rightarrow> Repository_t \<times> bool \<Rightarrow> Repository_t \<times> bool" where
  "decode_Repository v cur =
     (case v of
        JObject kvs \<Rightarrow> foldl decode_Repository_field cur kvs
      | JNull \<Rightarrow> cur
      | _ \<Rightarrow> (fst cur, False))"

definition decode_payload_field ::
  "GitHubWebhookPayload \<times> bool \<Rightarrow> string \<times> json \<Rightarrow> GitHubWebhookPayload \<times> bool" where
  "decode_payload_field acc kv =
     (if field_matches ''ref'' (fst kv)
      then ((fst acc)\<lparr>Ref := fst (set_string (snd kv) (Ref (fst acc), snd acc))\<rparr>,
            snd (set_string (snd kv) (Ref (fst acc), snd acc)))
      else if field_matches ''repository'' (fst kv)
      then ((fst acc)\<lparr>Repository := fst (decode_Repository (snd kv) (Repository (fst acc), snd acc))\<rparr>,
            snd (decode_Repository (snd kv) (Repository (fst acc), snd acc)))
      else acc)"

definition zero_payload :: GitHubWebhookPayload where
  "zero_payload = \<lparr>Ref = [], Repository = \<lparr>Name = []\<rparr>\<rparr>"

definition decode_payload :: "json \<Rightarrow> GitHubWebhookPayload \<times> bool" where
  "decode_payload v =
     (case v of
        JObject kvs \<Rightarrow> foldl decode_payload_field (zero_payload, True) kvs
      | JNull \<Rightarrow> (zero_payload, True)
      | _ \<Rightarrow> (zero_payload, False))"

definition json_Unmarshal :: "string \<Rightarrow> json_error + GitHubWebhookPayload" where
  "json_Unmarshal data =
     (case json_parse data of
        None \<Rightarrow> Inl SyntaxError
      | Some v \<Rightarrow>
          if snd (decode_payload v) then Inr (fst (decode_payload v)) else Inl UnmarshalTypeError)"

section \<open>The identifier pattern\<close>

text \<open>
  \<^verbatim>\<open>repoNamePattern = regexp.MustCompile(`^[a-zA-Z0-9_-]+$`)\<close>. In Go's syntax \<^verbatim>\<open>$\<close>
  without the \<^verbatim>\<open>m\<close> flag matches at the end of the text only, so \<^verbatim>\<open>MatchString\<close> holds
  exactly for the non-empty strings made of bytes of the class.
\<close>

definition in_class :: "char \<Rightarrow> bool" where
  "in_class c =
     (((97::nat) \<le> of_char c \<and> of_char c \<le> (122::nat))
      \<or> ((65::nat) \<le> of_char c \<and> of_char c \<le> (90::nat))
      \<or> ((48::nat) \<le> of_char c \<and> of_char c \<le> (57::nat))
      \<or> c = CHR ''_'' \<or> c = CHR ''-'')"

definition repoNamePattern_MatchString :: "string \<Rightarrow> bool" where
  "repoNamePattern_MatchString s = (s \<noteq> [] \<and> list_all in_class s)"

section \<open>path/filepath\<close>

fun splitc :: "char \<Rightarrow> string \<Rightarrow> string list" where
  "splitc sep [] = [[]]"
| "splitc sep (c # cs) =
     (if c = sep then [] # splitc sep cs
      else (case splitc sep cs of
              [] \<Rightarrow> [[c]]
            | x # xs \<Rightarrow> (c # x) # xs))"

fun strings_Join :: "string list \<Rightarrow> string \<Rightarrow> string" where
  "strings_Join [] sep = []"
| "strings_Join [x] sep = x"
| "strings_Join (x # xs) sep = x @ sep @ strings_Join xs sep"

text \<open>
  \<^verbatim>\<open>filepath.Clean\<close> on a slash-separated path: empty and \<^verbatim>\<open>.\<close> elements go, an inner
  \<^verbatim>\<open>..\<close> removes the element before it, a \<^verbatim>\<open>..\<close> at the root of a rooted path goes,
  and the empty result is \<^verbatim>\<open>.\<close>.
\<close>

definition clean_step :: "bool \<Rightarrow> string list \<Rightarrow> string \<Rightarrow> string list" where
  "clean_step rooted out e =
     (if e = [] \<or> e = ''.'' then out
      else if e = ''..'' then
        (if out \<noteq> [] \<and> last out \<noteq> ''..'' then butlast out
         else if rooted then out
         else out @ [e])
      else out @ [e])"

definition Clean :: "string \<Rightarrow> string" where
  "Clean path =
     (case path of
        [] \<Rightarrow> ''.''
      | c # _ \<Rightarrow>
          (if (if c = CHR ''/'' then ''/'' else [])
                @ strings_Join (foldl (clean_step (c = CHR ''/'')) [] (splitc CHR ''/'' path)) ''/'' = []
           then ''.''
           else (if c = CHR ''/'' then ''/'' else [])
                @ strings_Join (foldl (clean_step (c = CHR ''/'')) [] (splitc CHR ''/'' path)) ''/''))"

text \<open>\<^verbatim>\<open>filepath.Join\<close>: leading empty elements are dropped, the rest is joined with
  slashes and cleaned.\<close>

fun filepath_Join :: "string list \<Rightarrow> string" where
  "filepath_Join [] = []"
| "filepath_Join (e # es) =
     (if e \<noteq> [] then Clean (strings_Join (e # es) ''/'') else filepath_Join es)"

definition webhookDir :: string where
  "webhookDir = ''/app/webhook_jobs''"

section \<open>The file system\<close>

text \<open>
  The mailbox is a directory tree. A path is the list of its components from the root
  directory, which always exists. \<open>faults\<close> is what the storage answers when it refuses
  to create a path (read-only or full storage, missing permission, an I/O error), and
  nothing where it accepts. \<^verbatim>\<open>os.MkdirAll\<close> is only called on cleaned rooted paths, which
  have no \<^verbatim>\<open>.\<close> or \<^verbatim>\<open>..\<close> components left to resolve.
\<close>

datatype node = Dir | File

datatype errno =
  ENOENT | ENOTDIR | EEXIST | ENAMETOOLONG | EROFS | EACCES | ENOSPC | EDQUOT | EMLINK | EIO

record filesystem =
  nodes :: "string list \<rightharpoonup> node"
  faults :: "string list \<rightharpoonup> errno"

text \<open>The longest file name, in bytes, that Linux file systems take.\<close>

definition NAME_MAX :: nat where
  "NAME_MAX = 255"

definition path_components :: "string \<Rightarrow> string list" where
  "path_components p = filter (\<lambda>e. e \<noteq> []) (splitc CHR ''/'' p)"

definition Stat :: "filesystem \<Rightarrow> string list \<Rightarrow> node option" where
  "Stat fs p = (if p = [] then Some Dir else nodes fs p)"

text \<open>
  \<^verbatim>\<open>mkdir(2)\<close> in the order the kernel decides: the parent is resolved first
  (\<^verbatim>\<open>ENOENT\<close>, \<^verbatim>\<open>ENOTDIR\<close>), then the new name is looked up (\<^verbatim>\<open>ENAMETOOLONG\<close> beyond
  \<open>NAME_MAX\<close> bytes, \<^verbatim>\<open>EEXIST\<close> when it is there), then the storage is asked to write.
  The path of a slot has two short components before the identity, so \<^verbatim>\<open>PATH_MAX\<close> is
  never reached by a path whose components are within \<open>NAME_MAX\<close>.
\<close>

definition Mkdir :: "filesystem \<Rightarrow> string list \<Rightarrow> errno + filesystem" where
  "Mkdir fs p =
     (if p = [] then Inl EEXIST
      else (case Stat fs (butlast p) of
              None \<Rightarrow> Inl ENOENT
            | Some File \<Rightarrow> Inl ENOTDIR
            | Some Dir \<Rightarrow>
                if NAME_MAX < length (last p) then Inl ENAMETOOLONG
                else if Stat fs p \<noteq> None then Inl EEXIST
                else (case faults fs p of
                        Some e \<Rightarrow> Inl e
                      | None \<Rightarrow> Inr (fs\<lparr>nodes := (nodes fs)(p \<mapsto> Dir)\<rparr>))))"

text \<open>
  \<^verbatim>\<open>os.MkdirAll\<close>: an existing directory is success at once and an existing file is
  \<^verbatim>\<open>ENOTDIR\<close>; otherwise the parent is made first (unless it is the root), then
  \<^verbatim>\<open>Mkdir\<close> runs, and its error is forgiven when the directory is there after all.
\<close>

function MkdirAll :: "filesystem \<Rightarrow> string list \<Rightarrow> filesystem \<times> errno option" where
  "MkdirAll fs path =
     (case Stat fs path of
        Some Dir \<Rightarrow> (fs, None)
      | Some File \<Rightarrow> (fs, Some ENOTDIR)
      | None \<Rightarrow>
          (case (if butlast path \<noteq> [] then MkdirAll fs (butlast path) else (fs, None)) of
             (fs1, Some e) \<Rightarrow> (fs1, Some e)
           | (fs1, None) \<Rightarrow>
               (case Mkdir fs1 path of
                  Inr fs2 \<Rightarrow> (fs2, None)
                | Inl e \<Rightarrow> if Stat fs1 path = Some Dir then (fs1, None) else (fs1, Some e))))"
  by pat_completeness auto
termination
  by (relation "measure (\<lambda>(fs, path). length path)") (auto simp: butlast_conv_take)

declare MkdirAll.simps [simp del]

text \<open>
  What one call of \<open>MkdirAll\<close> may do to the tree: it keeps the storage's faults, the
  directory is in place exactly when it succeeds, it creates only missing directories on
  the way to \<open>path\<close> (some of them also when it fails further down), and a second call
  on the tree it left changes nothing and ends the same way.
\<close>

definition MkdirAll_post :: "filesystem \<Rightarrow> string list \<Rightarrow> filesystem \<Rightarrow> errno option \<Rightarrow> bool" where
  "MkdirAll_post fs path fs' err \<longleftrightarrow>
     faults fs' = faults fs \<and>
     (err = None \<longrightarrow> Stat fs' path = Some Dir) \<and>
     (err \<noteq> None \<longrightarrow> Stat fs' path \<noteq> Some Dir) \<and>
     (\<forall>q. Stat fs' q \<noteq> Stat fs q \<longrightarrow>
          prefix q path \<and> Stat fs q = None \<and> Stat fs' q = Some Dir) \<and>
     MkdirAll fs' path = (fs', err)"

section \<open>The server\<close>

datatype log_event =
    LogReadFailed
  | LogSignatureFailed string bool nat
  | LogIgnoredEvent string
  | LogInvalidJSON json_error
  | LogIgnoredRef string string
  | LogInvalidRepo string
  | LogDeployQueued string
  | LogMkdirError errno
  | LogDeployTriggered string

text \<open>
  \<^verbatim>\<open>init\<close>: the secret is the environment variable (empty when unset) trimmed of quotes
  and white space; a missing secret or a mailbox root that cannot be made is a panic
  (\<open>Inl\<close>).
\<close>

definition strings_Trim :: "string \<Rightarrow> string \<Rightarrow> string" where
  "strings_Trim s cutset =
     rev (dropWhile (\<lambda>c. c \<in> set cutset) (rev (dropWhile (\<lambda>c. c \<in> set cutset) s)))"

definition init :: "string \<Rightarrow> filesystem \<Rightarrow> string + (string \<times> filesystem)" where
  "init env fs =
     (if strings_Trim env [CHR 0x27, CHR '' '', CHR 0x09, CHR 0x0A, CHR 0x0D] = []
      then Inl ''GITHUB_WEBHOOK_SECRET environment variable is required''
      else (case MkdirAll fs (path_components webhookDir) of
              (fs', Some e) \<Rightarrow> Inl ''Failed to create webhook directory''
            | (fs', None) \<Rightarrow>
                Inr (strings_Trim env [CHR 0x27, CHR '' '', CHR 0x09, CHR 0x0A, CHR 0x0D], fs')))"

text \<open>\<^verbatim>\<open>runDeploy\<close> returns nothing: its outcome is the file system and one log line.\<close>

definition repoDir :: "string \<Rightarrow> string" where
  "repoDir repository = filepath_Join [webhookDir, repository]"

definition runDeploy :: "filesystem \<Rightarrow> string \<Rightarrow> filesystem \<times> log_event list" where
  "runDeploy fs repository =
     (case MkdirAll fs (path_components (repoDir repository)) of
        (fs', Some e) \<Rightarrow> (fs', [LogMkdirError e])
      | (fs', None) \<Rightarrow> (fs', [LogDeployTriggered repository]))"

text \<open>
  A request as the handler sees it: the result of \<^verbatim>\<open>io.ReadAll\<close> on the body (\<open>None\<close>
  when reading fails) and the headers; \<^verbatim>\<open>GetHeader\<close> gives the empty string for a
  missing header.
\<close>

record request =
  Body :: "string option"
  Header :: "string \<rightharpoonup> string"

definition GetHeader :: "request \<Rightarrow> string \<Rightarrow> string" where
  "GetHeader req key = (case Header req key of None \<Rightarrow> [] | Some v \<Rightarrow> v)"

text \<open>A response is the status and the \<^verbatim>\<open>gin.H\<close> map, written with its keys in order.\<close>

record response =
  status :: nat
  content :: "(string \<times> json) list"

text \<open>
  The handler answers from the request alone. \<open>spawned\<close> is the argument of
  \<^verbatim>\<open>go runDeploy(repository)\<close>: the goroutine is started, not awaited, and nothing it
  does comes back to the handler.
\<close>

record outcome =
  resp :: response
  logs :: "log_event list"
  spawned :: "string option"

definition healthCheckHandler :: response where
  "healthCheckHandler = \<lparr>status = 200, content = [(''status'', JString ''healthy'')]\<rparr>"

definition githubWebhookHandler :: "string \<Rightarrow> request \<Rightarrow> outcome" where
  "githubWebhookHandler webhookSecret req =
     (case Body req of
        None \<Rightarrow>
          \<lparr>resp = \<lparr>status = 400, content = [(''error'', JString ''failed to read body'')]\<rparr>,
           logs = [LogReadFailed], spawned = None\<rparr>
      | Some body \<Rightarrow>
          (case verifySignature webhookSecret body (GetHeader req ''X-Hub-Signature-256'') of
             Some err \<Rightarrow>
               \<lparr>resp = \<lparr>status = 401, content = [(''error'', JString err)]\<rparr>,
                logs = [LogSignatureFailed err (GetHeader req ''X-Hub-Signature-256'' \<noteq> [])
                          (length body)],
                spawned = None\<rparr>
           | None \<Rightarrow>
               if GetHeader req ''X-GitHub-Event'' \<noteq> ''push'' then
                 \<lparr>resp = \<lparr>status = 200,
                           content = [(''ignored'', JString ''not a push''), (''ok'', JBool True)]\<rparr>,
                  logs = [LogIgnoredEvent (GetHeader req ''X-GitHub-Event'')], spawned = None\<rparr>
               else
                 (case json_Unmarshal body of
                    Inl err \<Rightarrow>
                      \<lparr>resp = \<lparr>status = 400, content = [(''error'', JString ''invalid JSON'')]\<rparr>,
                       logs = [LogInvalidJSON err], spawned = None\<rparr>
                  | Inr payload \<Rightarrow>
                      if Ref payload \<noteq> ''refs/heads/main'' then
                        \<lparr>resp = \<lparr>status = 200,
                                  content = [(''ignored'', JString ''not main''), (''ok'', JBool True)]\<rparr>,
                         logs = [LogIgnoredRef (Ref payload) (Name (Repository payload))],
                         spawned = None\<rparr>
                      else if \<not> repoNamePattern_MatchString (Name (Repository payload)) then
                        \<lparr>resp = \<lparr>status = 200,
                                  content = [(''ignored'', JString ''invalid repository''),
                                             (''ok'', JBool True)]\<rparr>,
                         logs = [LogInvalidRepo (Name (Repository payload))], spawned = None\<rparr>
                      else
                        \<lparr>resp = \<lparr>status = 200,
                                  content = [(''ok'', JBool True), (''queued'', JBool True)]\<rparr>,
                         logs = [LogDeployQueued (Name (Repository payload))],
                         spawned = Some (Name (Repository payload))\<rparr>)))"

text \<open>
  One request served to the end: the handler's answer, then the goroutine it started
  run to completion on the file system.
\<close>

definition serve :: "string \<Rightarrow> filesystem \<Rightarrow> request \<Rightarrow> response \<times> filesystem \<times> log_event list" where
  "serve webhookSecret fs req =
     (case spawned (githubWebhookHandler webhookSecret req) of
        None \<Rightarrow>
          (resp (githubWebhookHandler webhookSecret req), fs,
           logs (githubWebhookHandler webhookSecret req))
      | Some repository \<Rightarrow>
          (resp (githubWebhookHandler webhookSecret req), fst (runDeploy fs repository),
           logs (githubWebhookHandler webhookSecret req) @ snd (runDeploy fs repository)))"

section \<open>Sample requests\<close>

text \<open>
  A secret, four bodies with the signature header a sender computes for each, a mailbox
  as \<open>init\<close> leaves it, writable and on read-only storage, a disk without the mailbox
  root, and an identity of 256 bytes.
\<close>

definition sample_secret :: string where
  \<open>sample_secret = ''topsecret''\<close>

definition push_main :: string where
  \<open>push_main = ''{"ref":"refs/heads/main","repository":{"name":"svc1"}}''\<close>

definition sig_push_main :: string where
  \<open>sig_push_main = ''sha256=c392f30f5d2b5b7513881d68219367631764eaf3320e881ee5b7076c948a6cc6''\<close>

definition push_dev :: string where
  \<open>push_dev = ''{"ref":"refs/heads/dev","repository":{"name":"svc1"}}''\<close>

definition sig_push_dev :: string where
  \<open>sig_push_dev = ''sha256=4fc5d9c5bb60503cd4df202bfe22659d20d9d4390dce0306839663608e28b42c''\<close>

definition push_dotdot :: string where
  \<open>push_dotdot = ''{"ref":"refs/heads/main","repository":{"name":".."}}''\<close>

definition sig_push_dotdot :: string where
  \<open>sig_push_dotdot = ''sha256=3f108b68fd0a8f07fff486b3c4b967338376fd180a9a8d935c6b712f5558c067''\<close>

definition not_json :: string where
  \<open>not_json = ''not json''\<close>

definition sig_not_json :: string where
  \<open>sig_not_json = ''sha256=b78e16163b0b358f9fdf339c383e0f989ab8b6b1c97f01b7b149cc95541e32bb''\<close>

definition mk_request :: "string \<Rightarrow> string \<Rightarrow> string \<Rightarrow> request" where
  "mk_request body signature event =
     \<lparr>Body = Some body,
      Header = [''X-Hub-Signature-256'' \<mapsto> signature, ''X-GitHub-Event'' \<mapsto> event]\<rparr>"

definition mailbox :: filesystem where
  "mailbox =
     \<lparr>nodes = [[''app''] \<mapsto> Dir, [''app'', ''webhook_jobs''] \<mapsto> Dir], faults = Map.empty\<rparr>"

definition mailbox_ro :: filesystem where
  "mailbox_ro =
     \<lparr>nodes = [[''app''] \<mapsto> Dir, [''app'', ''webhook_jobs''] \<mapsto> Dir],
      faults = (\<lambda>p. Some EROFS)\<rparr>"

definition bare_disk :: filesystem where
  "bare_disk = \<lparr>nodes = Map.empty, faults = Map.empty\<rparr>"

definition long_identity :: string where
  "long_identity = replicate 256 (CHR ''a'')"

section \<open>Comparison of byte strings\<close>

lemma unat_of_char_byte: "unat (of_char c :: byte) = of_char c"
proof -
  have "(of_char c :: byte) = of_nat (of_char c)"
    by (simp only: of_nat_of_char)
  then have "unat (of_char c :: byte) = unat (of_nat (of_char c) :: byte)"
    by (rule arg_cong)
  also have "\<dots> = of_char c mod 256"
    by (simp only: unat_of_nat) simp
  also have "\<dots> = of_char c"
    by simp
  finally show ?thesis .
qed

lemma of_char_byte_inj: "(of_char a :: byte) = of_char b \<longleftrightarrow> a = b"
proof
  assume "(of_char a :: byte) = of_char b"
  then have "unat (of_char a :: byte) = unat (of_char b :: byte)" by (rule arg_cong)
  then have "(of_char a :: nat) = of_char b" by (simp only: unat_of_char_byte)
  then show "a = b" by simp
qed simp

lemma bytes_of_eq_iff: "bytes_of a = bytes_of b \<longleftrightarrow> a = b"
  unfolding bytes_of_def
  by (rule inj_map_eq_map) (simp add: inj_on_def of_char_byte_inj)

lemma xor_eq_0_byte: "(a::byte) XOR b = 0 \<longleftrightarrow> a = b"
proof
  assume "a XOR b = 0"
  then have "(a XOR b) XOR b = 0 XOR b" by (rule arg_cong)
  then show "a = b" by (simp add: xor.assoc)
qed simp

lemma ConstantTimeCompare_fold:
  "length x = length y \<Longrightarrow>
   foldl (\<lambda>v (a, b). v OR (a XOR b)) v0 (zip x y) = (0::byte) \<longleftrightarrow> v0 = 0 \<and> x = y"
proof (induction x y arbitrary: v0 rule: list_induct2)
  case Nil
  then show ?case by simp
next
  case (Cons a xs b ys)
  have "(foldl (\<lambda>v (a, b). v OR (a XOR b)) v0 (zip (a # xs) (b # ys)) = 0)
      = (foldl (\<lambda>v (a, b). v OR (a XOR b)) (v0 OR (a XOR b)) (zip xs ys) = 0)"
    by simp
  also have "\<dots> = (v0 OR (a XOR b) = 0 \<and> xs = ys)"
    by (rule Cons.IH)
  also have "\<dots> = (v0 = 0 \<and> a # xs = b # ys)"
    by (simp only: or_eq_0_iff xor_eq_0_byte list.inject conj_assoc)
  finally show ?case .
qed

lemma hmac_Equal_iff: "hmac_Equal x y \<longleftrightarrow> x = y"
  by (auto simp: hmac_Equal_def ConstantTimeCompare_def ConstantTimeCompare_fold)

section \<open>Signature verification\<close>

lemma verifySignature_None_iff:
  "verifySignature k body sg = None \<longleftrightarrow> sg = sign k body"
proof (cases "take 7 sg = ''sha256=''")
  case True
  then have sg: "sg = ''sha256='' @ drop 7 sg"
    by (metis append_take_drop_id)
  from True have len: "\<not> length sg < 7" "sg \<noteq> []"
    by auto
  have "verifySignature k body sg = None \<longleftrightarrow>
        drop 7 sg = hex_EncodeToString (hmac_sha256 (bytes_of k) (bytes_of body))"
    using True len by (auto simp: verifySignature_def hmac_Equal_iff bytes_of_eq_iff)
  also have "\<dots> \<longleftrightarrow> sg = sign k body"
    using sg by (auto simp: sign_def)
  finally show ?thesis .
next
  case False
  then have "verifySignature k body sg \<noteq> None"
    by (simp add: verifySignature_def)
  moreover from False have "sg \<noteq> sign k body"
    by (auto simp: sign_def)
  ultimately show ?thesis by simp
qed

lemma sign_prefix: "take 7 (sign k body) = ''sha256=''" "drop 7 (sign k body) = hex_EncodeToString (hmac_sha256 (bytes_of k) (bytes_of body))"
  by (simp_all add: sign_def)

lemma verifySignature_sign: "verifySignature k body (sign k body) = None"
  by (simp only: verifySignature_None_iff)

lemma verifySignature_other: "sg \<noteq> sign k body \<Longrightarrow> verifySignature k body sg \<noteq> None"
  by (simp only: verifySignature_None_iff) simp

lemma verifySignature_errors:
  "verifySignature k body sg = Some err \<Longrightarrow>
     err = ''missing or invalid signature'' \<or> err = ''signature mismatch''"
  by (auto simp: verifySignature_def split: if_splits)

text \<open>
  Verification accepts exactly one header value for a body. So a signature with one bit
  flipped is rejected, and a body with one bit flipped is accepted under the old
  signature only if its HMAC is the same.
\<close>

lemma flip_char_neq:
  assumes "b < 8"
  shows "char_of ((of_char c :: nat) XOR 2 ^ b) \<noteq> c"
proof
  assume "char_of ((of_char c :: nat) XOR 2 ^ b) = c"
  then have "(of_char (char_of ((of_char c :: nat) XOR 2 ^ b)) :: nat) = of_char c"
    by simp
  then have "((of_char c :: nat) XOR 2 ^ b) mod 256 = of_char c"
    by (simp only: of_char_of)
  then have "bit (((of_char c :: nat) XOR 2 ^ b) mod 256) b = bit (of_char c :: nat) b"
    by simp
  moreover have "bit (((of_char c :: nat) XOR 2 ^ b) mod 256) b = bit ((of_char c :: nat) XOR 2 ^ b) b"
  proof -
    have "((of_char c :: nat) XOR 2 ^ b) mod 256 = take_bit 8 ((of_char c :: nat) XOR 2 ^ b)"
      by (simp only: take_bit_eq_mod) simp
    then have "bit (((of_char c :: nat) XOR 2 ^ b) mod 256) b
                 = bit (take_bit 8 ((of_char c :: nat) XOR 2 ^ b)) b"
      by (rule arg_cong)
    also have "\<dots> = bit ((of_char c :: nat) XOR 2 ^ b) b"
      using assms by (simp only: bit_take_bit_iff) simp
    finally show ?thesis .
  qed
  moreover have "bit ((of_char c :: nat) XOR 2 ^ b) b = (\<not> bit (of_char c :: nat) b)"
    by (simp add: bit_xor_iff bit_exp_iff)
  ultimately show False by simp
qed

lemma flipBit_neq: "i < length s \<Longrightarrow> b < 8 \<Longrightarrow> flipBit i b s \<noteq> s"
proof
  assume a: "i < length s" "b < 8" and e: "flipBit i b s = s"
  from e have "flipBit i b s ! i = s ! i" by simp
  with a(1) have "char_of ((of_char (s ! i) :: nat) XOR 2 ^ b) = s ! i"
    by (simp add: flipBit_def)
  with flip_char_neq[OF a(2)] show False by blast
qed

lemma verifySignature_flipped_signature:
  "i < length (sign k body) \<Longrightarrow> b < 8 \<Longrightarrow>
     verifySignature k body (flipBit i b (sign k body)) \<noteq> None"
  by (rule verifySignature_other) (rule flipBit_neq)

lemma verifySignature_flipped_body:
  "verifySignature k (flipBit i b body) (sign k body) = None
     \<longleftrightarrow> sign k (flipBit i b body) = sign k body"
  by (auto simp: verifySignature_None_iff)

section \<open>The slot path\<close>

lemma splitc_no_sep: "sep \<notin> set xs \<Longrightarrow> splitc sep xs = [xs]"
  by (induction xs) auto

lemma splitc_append_sep: "sep \<notin> set xs \<Longrightarrow> splitc sep (xs @ sep # ys) = xs # splitc sep ys"
  by (induction xs) auto

lemma in_class_not_slash: "\<not> in_class CHR ''/''"
  by (simp add: in_class_def)

lemma in_class_not_dot: "\<not> in_class CHR ''.''"
  by (simp add: in_class_def)

lemma match_props:
  assumes "repoNamePattern_MatchString r"
  shows "r \<noteq> []" "CHR ''/'' \<notin> set r" "CHR ''.'' \<notin> set r" "r \<noteq> ''.''" "r \<noteq> ''..''"
proof -
  from assms have ne: "r \<noteq> []" and cls: "\<forall>c\<in>set r. in_class c"
    by (simp_all add: repoNamePattern_MatchString_def list_all_iff)
  show "r \<noteq> []" by (rule ne)
  from cls show "CHR ''/'' \<notin> set r" using in_class_not_slash by blast
  from cls show dot: "CHR ''.'' \<notin> set r" using in_class_not_dot by blast
  from dot show "r \<noteq> ''.''" by auto
  from dot show "r \<noteq> ''..''" by auto
qed

lemma Join_slot:
  assumes "repoNamePattern_MatchString r"
  shows "repoDir r = webhookDir @ ''/'' @ r"
  using match_props[OF assms]
  by (simp add: repoDir_def webhookDir_def Clean_def splitc_no_sep clean_step_def)

lemma components_slot:
  assumes "repoNamePattern_MatchString r"
  shows "path_components (repoDir r) = path_components webhookDir @ [r]"
proof -
  have "path_components (repoDir r) = path_components (webhookDir @ ''/'' @ r)"
    by (simp only: Join_slot[OF assms])
  also have "\<dots> = path_components webhookDir @ [r]"
    using match_props[OF assms]
    by (simp add: path_components_def webhookDir_def splitc_no_sep)
  finally show ?thesis .
qed

lemma root_components: "path_components webhookDir = [''app'', ''webhook_jobs'']"
  by (simp add: path_components_def webhookDir_def)

lemma match_svc1: "repoNamePattern_MatchString ''svc1''"
  by (simp add: repoNamePattern_MatchString_def in_class_def)

section \<open>Making directories\<close>

lemma MkdirAll_exists: "Stat fs path = Some Dir \<Longrightarrow> MkdirAll fs path = (fs, None)"
  by (simp add: MkdirAll.simps[of fs path])

lemma MkdirAll_file: "Stat fs path = Some File \<Longrightarrow> MkdirAll fs path = (fs, Some ENOTDIR)"
  by (simp add: MkdirAll.simps[of fs path])

lemma Stat_update:
  "p \<noteq> [] \<Longrightarrow> Stat (fs\<lparr>nodes := (nodes fs)(p \<mapsto> Dir)\<rparr>) q = (if q = p then Some Dir else Stat fs q)"
  by (simp add: Stat_def)

lemma Mkdir_Inr:
  assumes "Mkdir fs p = Inr fs2"
  shows "fs2 = fs\<lparr>nodes := (nodes fs)(p \<mapsto> Dir)\<rparr>" and "p \<noteq> []"
  using assms
  by (auto simp: Mkdir_def split: if_splits option.splits node.splits)

lemma MkdirAll_post_step:
  assumes none: "Stat fs path = None"
    and par: "MkdirAll_post fs (butlast path) fs1 e1"
    and res: "(case e1 of
                 Some e \<Rightarrow> (fs1, Some e)
               | None \<Rightarrow>
                   (case Mkdir fs1 path of
                      Inr fs2 \<Rightarrow> (fs2, None)
                    | Inl e \<Rightarrow> if Stat fs1 path = Some Dir then (fs1, None) else (fs1, Some e))) = (fs', err)"
  shows "MkdirAll_post fs path fs' err"
proof -
  from none have ne: "path \<noteq> []" by (auto simp: Stat_def)
  have pre: "prefix q (butlast path) \<Longrightarrow> prefix q path" for q
    by (metis append_butlast_last_id ne prefix_order.order_trans prefixI)
  have same: "Stat fs1 path = None"
  proof (rule ccontr)
    assume "Stat fs1 path \<noteq> None"
    with none have "Stat fs1 path \<noteq> Stat fs path" by simp
    with par have "prefix path (butlast path)" by (simp add: MkdirAll_post_def)
    then have "length path \<le> length (butlast path)" by (rule prefix_length_le)
    then have "length path \<le> length path - 1" by (simp only: length_butlast)
    moreover from ne have "0 < length path" by simp
    ultimately show False by arith
  qed
  from par have pc: "MkdirAll fs1 (butlast path) = (fs1, e1)"
    by (simp add: MkdirAll_post_def)
  have again: "MkdirAll fs1 path =
      (case e1 of
         Some e \<Rightarrow> (fs1, Some e)
       | None \<Rightarrow>
           (case Mkdir fs1 path of
              Inr fs2 \<Rightarrow> (fs2, None)
            | Inl e \<Rightarrow> if Stat fs1 path = Some Dir then (fs1, None) else (fs1, Some e)))"
  proof (cases "butlast path \<noteq> []")
    case True
    then show ?thesis
      using same pc by (simp add: MkdirAll.simps[of fs1 path])
  next
    case False
    then have "MkdirAll fs1 (butlast path) = (fs1, None)"
      by (simp add: MkdirAll_exists Stat_def)
    with pc have "e1 = None" by simp
    then show ?thesis
      using same False by (simp add: MkdirAll.simps[of fs1 path])
  qed
  have kept: "MkdirAll_post fs path fs1 (Some e)" if "MkdirAll fs1 path = (fs1, Some e)" for e
    unfolding MkdirAll_post_def using par same pre that by (auto simp: MkdirAll_post_def)
  show ?thesis
  proof (cases e1)
    case (Some e)
    with res have "fs' = fs1" "err = Some e" by simp_all
    moreover from Some again have "MkdirAll fs1 path = (fs1, Some e)" by simp
    ultimately show ?thesis using kept by simp
  next
    case None
    note e1n = this
    show ?thesis
    proof (cases "Mkdir fs1 path")
      case (Inl e)
      with res e1n same have "fs' = fs1" "err = Some e" by simp_all
      moreover from Inl e1n same again have "MkdirAll fs1 path = (fs1, Some e)" by simp
      ultimately show ?thesis using kept by simp
    next
      case (Inr fs2)
      with res e1n have r: "fs' = fs2" "err = None" by simp_all
      note fs2 = Mkdir_Inr(1)[OF Inr]
      have st: "Stat fs' q = (if q = path then Some Dir else Stat fs1 q)" for q
        unfolding r fs2 by (rule Stat_update[OF ne])
      have fl: "faults fs' = faults fs"
        using par by (simp add: r fs2 MkdirAll_post_def)
      have frame: "prefix q path \<and> Stat fs q = None \<and> Stat fs' q = Some Dir"
        if "Stat fs' q \<noteq> Stat fs q" for q
      proof (cases "q = path")
        case True
        then show ?thesis using none st by simp
      next
        case False
        with that st have "Stat fs1 q \<noteq> Stat fs q" by simp
        with par have "prefix q (butlast path) \<and> Stat fs q = None \<and> Stat fs1 q = Some Dir"
          by (simp add: MkdirAll_post_def)
        with False st pre show ?thesis by simp
      qed
      have here: "Stat fs' path = Some Dir"
        using st by simp
      then have "MkdirAll fs' path = (fs', None)"
        by (rule MkdirAll_exists)
      then show ?thesis
        unfolding MkdirAll_post_def using fl r(2) here frame by simp
    qed
  qed
qed

lemma MkdirAll_meets_post: "MkdirAll_post fs path (fst (MkdirAll fs path)) (snd (MkdirAll fs path))"
proof (induction fs path rule: MkdirAll.induct)
  case (1 fs path)
  show ?case
  proof (cases "Stat fs path")
    case (Some n)
    then show ?thesis
      by (cases n) (simp_all add: MkdirAll_exists MkdirAll_file MkdirAll_post_def)
  next
    case None
    show ?thesis
    proof (cases "butlast path \<noteq> []")
      case True
      have par: "MkdirAll_post fs (butlast path) (fst (MkdirAll fs (butlast path))) (snd (MkdirAll fs (butlast path)))"
        by (rule "1.IH"[OF None True])
      show ?thesis
        apply (rule MkdirAll_post_step[OF None par])
        using None True apply (simp add: MkdirAll.simps[of fs path] split: prod.splits option.splits sum.splits)
        done
    next
      case False
      have par: "MkdirAll_post fs (butlast path) fs None"
        using False by (simp add: MkdirAll_post_def Stat_def MkdirAll_exists)
      show ?thesis
        apply (rule MkdirAll_post_step[OF None par])
        using None False apply (simp add: MkdirAll.simps[of fs path] split: prod.splits option.splits sum.splits)
        done
    qed
  qed
qed

lemma MkdirAll_idem: "MkdirAll (fst (MkdirAll fs path)) path = MkdirAll fs path"
  using MkdirAll_meets_post[of fs path] by (simp add: MkdirAll_post_def)

lemma MkdirAll_frame:
  "Stat (fst (MkdirAll fs p)) q \<noteq> Stat fs q \<Longrightarrow> prefix q p \<and> Stat fs q = None \<and> Stat (fst (MkdirAll fs p)) q = Some Dir"
  using MkdirAll_meets_post[of fs p] by (simp add: MkdirAll_post_def)

lemma MkdirAll_success:
  "snd (MkdirAll fs p) = None \<Longrightarrow> Stat (fst (MkdirAll fs p)) p = Some Dir"
  using MkdirAll_meets_post[of fs p] by (simp add: MkdirAll_post_def)


lemma MkdirAll_child_step:
  assumes par: "Stat fs p = Some Dir" and none: "Stat fs (p @ [c]) = None"
  shows "MkdirAll fs (p @ [c]) =
           (case Mkdir fs (p @ [c]) of Inr fs2 \<Rightarrow> (fs2, None) | Inl e \<Rightarrow> (fs, Some e))"
proof (cases "p = []")
  case True
  then show ?thesis
    using none by (simp add: MkdirAll.simps[of fs "[c]"] split: sum.splits)
next
  case False
  then show ?thesis
    using none par
    by (simp add: MkdirAll.simps[of fs "p @ [c]"] MkdirAll_exists split: sum.splits)
qed

lemma MkdirAll_parent_step:
  assumes "Stat fs (p @ [c]) = None" and "p \<noteq> []"
    and "MkdirAll fs p = (fs1, None)" and "Stat fs1 (p @ [c]) = None"
  shows "MkdirAll fs (p @ [c]) =
           (case Mkdir fs1 (p @ [c]) of Inr fs2 \<Rightarrow> (fs2, None) | Inl e \<Rightarrow> (fs1, Some e))"
  using assms by (simp add: MkdirAll.simps[of fs "p @ [c]"] split: sum.splits)

lemma MkdirAll_child:
  assumes par: "Stat fs p = Some Dir"
    and ch: "Stat (fst (MkdirAll fs (p @ [c]))) q \<noteq> Stat fs q"
  shows "q = p @ [c]"
proof (rule ccontr)
  assume nq: "q \<noteq> p @ [c]"
  have "Stat (fst (MkdirAll fs (p @ [c]))) q = Stat fs q"
  proof (cases "Stat fs (p @ [c])")
    case None
    note step = MkdirAll_child_step[OF par None]
    show ?thesis
    proof (cases "Mkdir fs (p @ [c])")
      case (Inl e)
      then show ?thesis by (simp add: step)
    next
      case (Inr fs2)
      then have "fs2 = fs\<lparr>nodes := (nodes fs)(p @ [c] \<mapsto> Dir)\<rparr>"
        by (rule Mkdir_Inr)
      then have "Stat fs2 q = Stat fs q"
        using nq by (simp add: Stat_update)
      then show ?thesis
        using Inr by (simp add: step)
    qed
  next
    case (Some n)
    then show ?thesis
      by (cases n) (simp_all add: MkdirAll_exists MkdirAll_file)
  qed
  with ch show False by simp
qed

lemma runDeploy_fst: "fst (runDeploy fs r) = fst (MkdirAll fs (path_components (repoDir r)))"
  by (simp add: runDeploy_def split: prod.splits option.splits)

lemma runDeploy_snd:
  "snd (runDeploy fs r) =
     (case snd (MkdirAll fs (path_components (repoDir r))) of
        None \<Rightarrow> [LogDeployTriggered r] | Some e \<Rightarrow> [LogMkdirError e])"
  by (simp add: runDeploy_def split: prod.splits option.splits)

lemma runDeploy_idem: "runDeploy (fst (runDeploy fs r)) r = runDeploy fs r"
proof -
  let ?p = "path_components (repoDir r)"
  have "MkdirAll (fst (MkdirAll fs ?p)) ?p = MkdirAll fs ?p"
    by (rule MkdirAll_idem)
  then show ?thesis
    by (simp add: prod_eq_iff runDeploy_fst runDeploy_snd)
qed

section \<open>The handler\<close>

lemma GetHeader_mk_request:
  "GetHeader (mk_request body sg ev) ''X-Hub-Signature-256'' = sg"
  "GetHeader (mk_request body sg ev) ''X-GitHub-Event'' = ev"
  "Body (mk_request body sg ev) = Some body"
  by (simp_all add: GetHeader_def mk_request_def)

lemma githubWebhookHandler_accepted:
  assumes "Body req = Some body"
    and "GetHeader req ''X-Hub-Signature-256'' = sign secret body"
    and "GetHeader req ''X-GitHub-Event'' = ''push''"
    and "json_Unmarshal body = Inr payload"
    and "Ref payload = ''refs/heads/main''"
    and "repoNamePattern_MatchString (Name (Repository payload))"
  shows "githubWebhookHandler secret req =
           \<lparr>resp = \<lparr>status = 200, content = [(''ok'', JBool True), (''queued'', JBool True)]\<rparr>,
            logs = [LogDeployQueued (Name (Repository payload))],
            spawned = Some (Name (Repository payload))\<rparr>"
  using assms by (simp add: githubWebhookHandler_def verifySignature_sign)

lemma spawned_valid:
  assumes "spawned (githubWebhookHandler secret req) = Some repository"
  shows "repoNamePattern_MatchString repository"
  using assms
  by (auto simp: githubWebhookHandler_def split: option.splits if_splits sum.splits)

section \<open>Evaluation of the hash on concrete inputs\<close>

lemma mask32: "(x::u32) AND 0xffffffff = x"
proof -
  have "(0xffffffff::u32) = - 1" by simp
  then show ?thesis by (simp only: and.right_neutral bit.conj_one_right)
qed

lemma rotr_eval: "rotr n x = (drop_bit n x OR push_bit (32 - n) x) AND 0xffffffff"
  by (simp only: mask32 rotr_def)

lemma schedule_eval:
  "schedule (numeral k) ws =
     schedule (pred_numeral k)
       (((ssig1 (ws ! 1) + ws ! 6 + ssig0 (ws ! 14) + ws ! 15) AND 0xffffffff) # ws)"
  by (simp only: mask32) (simp add: numeral_eq_Suc)

lemma round_t1_eval:
  "round_t1 [a, b, c, d, e, f, g, h] k w = (h + bsig1 e + ch e f g + k + w) AND 0xffffffff"
  by (simp only: mask32 round_t1.simps)

lemma round_t2_eval: "round_t2 (a # b # c # r) = (bsig0 a + maj a b c) AND 0xffffffff"
  by (simp only: mask32 round_t2.simps)

lemma round_out_eval:
  "round_out [a, b, c, d, e, f, g, h] t1 t2 =
     [(t1 + t2) AND 0xffffffff, a, b, c, (d + t1) AND 0xffffffff, e, f, g]"
  by (simp only: mask32 round_out.simps)

lemma compress_eval:
  "compress hs block =
     map2 (\<lambda>x y. (x + y) AND 0xffffffff) hs
       (foldl round_step hs
          (zip sha_K (rev (schedule 48 (rev (map be32 (chunks 4 block)))))))"
  by (simp only: mask32 compress_def)

lemma replicate_eval: "replicate (numeral k) x = x # replicate (pred_numeral k) x"
  by (simp add: numeral_eq_Suc)

lemmas sha_eval =
  compress_eval sha_K_def sha_H0_def be32_def ssig0_def ssig1_def bsig0_def bsig1_def
  ch_def maj_def rotr_eval be_bytes4_def be_bytes8_def sha_pad_def sha256_def schedule_eval
  bytes_of_def round_t1_eval round_t2_eval round_out_eval round_step_def replicate_eval
  hmac_sha256_def hmac_key_def hextable_def hex_EncodeToString_def

lemma sha256_abc:
  "hex_EncodeToString (sha256 (bytes_of ''abc'')) =
     ''ba7816bf8f01cfea414140de5dae2223b00361a396177a9cb410ff61f20015ad''"
  by (simp add: sha_eval del: round_out.simps round_t1.simps round_t2.simps)

lemma hmac_sha256_fox:
  "hex_EncodeToString
     (hmac_sha256 (bytes_of ''key'') (bytes_of ''The quick brown fox jumps over the lazy dog'')) =
     ''f7bc83f430538424b13298e6aa6fb143ef4d59a14946175997479dbc2d1a3cd8''"
  by (simp add: sha_eval del: round_out.simps round_t1.simps round_t2.simps)

section \<open>The sample requests, evaluated\<close>

lemma sign_push_main: "sign sample_secret push_main = sig_push_main"
  by (simp add: sha_eval sign_def sample_secret_def push_main_def sig_push_main_def
      del: round_out.simps round_t1.simps round_t2.simps)

lemma sign_push_dev: "sign sample_secret push_dev = sig_push_dev"
  by (simp add: sha_eval sign_def sample_secret_def push_dev_def sig_push_dev_def
      del: round_out.simps round_t1.simps round_t2.simps)

lemma sign_push_dotdot: "sign sample_secret push_dotdot = sig_push_dotdot"
  by (simp add: sha_eval sign_def sample_secret_def push_dotdot_def sig_push_dotdot_def
      del: round_out.simps round_t1.simps round_t2.simps)

lemma sign_not_json: "sign sample_secret not_json = sig_not_json"
  by (simp add: sha_eval sign_def sample_secret_def not_json_def sig_not_json_def
      del: round_out.simps round_t1.simps round_t2.simps)

lemma json_push_main:
  "json_Unmarshal push_main = Inr \<lparr>Ref = ''refs/heads/main'', Repository = \<lparr>Name = ''svc1''\<rparr>\<rparr>"
  by code_simp

lemma json_push_dev:
  "json_Unmarshal push_dev = Inr \<lparr>Ref = ''refs/heads/dev'', Repository = \<lparr>Name = ''svc1''\<rparr>\<rparr>"
  by code_simp

lemma json_push_dotdot:
  "json_Unmarshal push_dotdot = Inr \<lparr>Ref = ''refs/heads/main'', Repository = \<lparr>Name = ''..''\<rparr>\<rparr>"
  by code_simp

lemma json_not_json: "json_Unmarshal not_json = Inl SyntaxError"
  by code_simp

lemma toUpper_digest:
  "map toUpper ''f7bc83f430538424b13298e6aa6fb143ef4d59a14946175997479dbc2d1a3cd8'' =
     ''F7BC83F430538424B13298E6AA6FB143EF4D59A14946175997479DBC2D1A3CD8''"
  by code_simp

lemma hex_hmac_push_main:
  "hex_EncodeToString (hmac_sha256 (bytes_of sample_secret) (bytes_of push_main)) = drop 7 sig_push_main"
  unfolding sign_push_main[symmetric] by (simp add: sign_def)

lemma Stat_mailbox:
  "Stat mailbox [''app'', ''webhook_jobs''] = Some Dir"
  "Stat mailbox [''app'', ''webhook_jobs'', ''svc1''] = None"
  "Stat mailbox [''app'', ''webhook_jobs'', ''svc2''] = None"
  "Stat mailbox_ro [''app'', ''webhook_jobs''] = Some Dir"
  "Stat mailbox_ro [''app'', ''webhook_jobs'', ''svc1''] = None"
  by (simp_all add: Stat_def mailbox_def mailbox_ro_def)


lemma MkdirAll_mailbox:
  "MkdirAll mailbox [''app'', ''webhook_jobs'', ''svc1'']
     = (mailbox\<lparr>nodes := (nodes mailbox)([''app'', ''webhook_jobs'', ''svc1''] \<mapsto> Dir)\<rparr>, None)"
proof -
  have "Mkdir mailbox ([''app'', ''webhook_jobs''] @ [''svc1''])
          = Inr (mailbox\<lparr>nodes := (nodes mailbox)([''app'', ''webhook_jobs'', ''svc1''] \<mapsto> Dir)\<rparr>)"
    by (simp add: Mkdir_def Stat_def mailbox_def NAME_MAX_def)
  with MkdirAll_child_step[of mailbox "[''app'', ''webhook_jobs'']" "''svc1''"] Stat_mailbox
  show ?thesis by simp
qed


lemma runDeploy_mailbox:
  "runDeploy mailbox ''svc1''
     = (mailbox\<lparr>nodes := (nodes mailbox)([''app'', ''webhook_jobs'', ''svc1''] \<mapsto> Dir)\<rparr>,
        [LogDeployTriggered ''svc1''])"
  by (simp add: runDeploy_def components_slot[OF match_svc1] root_components MkdirAll_mailbox)

lemma accepted_push_main:
  "githubWebhookHandler sample_secret (mk_request push_main sig_push_main ''push'') =
     \<lparr>resp = \<lparr>status = 200, content = [(''ok'', JBool True), (''queued'', JBool True)]\<rparr>,
      logs = [LogDeployQueued ''svc1''], spawned = Some ''svc1''\<rparr>"
proof -
  have h2: "GetHeader (mk_request push_main sig_push_main ''push'') ''X-Hub-Signature-256''
        = sign sample_secret push_main"
    by (simp only: GetHeader_mk_request sign_push_main)
  from githubWebhookHandler_accepted[OF GetHeader_mk_request(3) h2 GetHeader_mk_request(2)
      json_push_main]
  show ?thesis by (simp add: match_svc1)
qed

text \<open>
  An identity of 256 bytes matches the pattern, and its slot cannot be made: on the
  mailbox nothing changes, and on a disk without the mailbox root the two directories
  above the slot are made before the failure.
\<close>

lemma match_long_identity: "repoNamePattern_MatchString long_identity"
  by (simp add: repoNamePattern_MatchString_def long_identity_def in_class_def list_all_iff)

lemma Mkdir_long_identity:
  "Stat fs [''app'', ''webhook_jobs''] = Some Dir \<Longrightarrow>
     Mkdir fs ([''app'', ''webhook_jobs''] @ [long_identity]) = Inl ENAMETOOLONG"
  by (simp add: Mkdir_def NAME_MAX_def long_identity_def)

lemma runDeploy_long_identity:
  "runDeploy mailbox long_identity = (mailbox, [LogMkdirError ENAMETOOLONG])"
proof -
  have none: "Stat mailbox ([''app'', ''webhook_jobs''] @ [long_identity]) = None"
    by (simp add: Stat_def mailbox_def)
  from MkdirAll_child_step[OF Stat_mailbox(1) none] Mkdir_long_identity[OF Stat_mailbox(1)]
  have "MkdirAll mailbox ([''app'', ''webhook_jobs''] @ [long_identity]) = (mailbox, Some ENAMETOOLONG)"
    by simp
  then show ?thesis
    by (simp add: runDeploy_def components_slot[OF match_long_identity] root_components)
qed

lemma Stat_bare_disk: "p \<noteq> [] \<Longrightarrow> Stat bare_disk p = None"
  by (simp add: Stat_def bare_disk_def)

lemma MkdirAll_bare_disk_app:
  "MkdirAll bare_disk [''app'']
     = (\<lparr>nodes = [[''app''] \<mapsto> Dir], faults = Map.empty\<rparr>, None)"
proof -
  have "Mkdir bare_disk ([] @ [''app''])
          = Inr \<lparr>nodes = [[''app''] \<mapsto> Dir], faults = Map.empty\<rparr>"
    by (simp add: Mkdir_def Stat_def bare_disk_def NAME_MAX_def)
  with MkdirAll_child_step[of bare_disk "[]" "''app''"] show ?thesis
    by (simp add: Stat_bare_disk) (simp add: Stat_def)
qed

lemma MkdirAll_bare_disk_root:
  "MkdirAll bare_disk [''app'', ''webhook_jobs'']
     = (\<lparr>nodes = [[''app''] \<mapsto> Dir, [''app'', ''webhook_jobs''] \<mapsto> Dir], faults = Map.empty\<rparr>, None)"
proof -
  let ?fs1 = "\<lparr>nodes = [[''app''] \<mapsto> Dir], faults = Map.empty\<rparr>"
  have "Stat ?fs1 ([''app''] @ [''webhook_jobs'']) = None"
    by (simp add: Stat_def)
  from MkdirAll_parent_step[OF _ _ MkdirAll_bare_disk_app this]
  have "MkdirAll bare_disk ([''app''] @ [''webhook_jobs''])
          = (case Mkdir ?fs1 ([''app''] @ [''webhook_jobs'']) of
               Inr fs2 \<Rightarrow> (fs2, None) | Inl e \<Rightarrow> (?fs1, Some e))"
    by (simp add: Stat_bare_disk)
  then show ?thesis
    by (simp add: Mkdir_def Stat_def NAME_MAX_def)
qed

lemma runDeploy_bare_disk_long_identity:
  "snd (runDeploy bare_disk long_identity) = [LogMkdirError ENAMETOOLONG]
   \<and> Stat bare_disk [''app''] = None
   \<and> Stat (fst (runDeploy bare_disk long_identity)) [''app''] = Some Dir
   \<and> Stat (fst (runDeploy bare_disk long_identity)) [''app'', ''webhook_jobs''] = Some Dir
   \<and> Stat (fst (runDeploy bare_disk long_identity)) [''app'', ''webhook_jobs'', long_identity] = None"
proof -
  let ?fs1 = "\<lparr>nodes = [[''app''] \<mapsto> Dir, [''app'', ''webhook_jobs''] \<mapsto> Dir], faults = Map.empty\<rparr>"
  have p: "Stat ?fs1 [''app'', ''webhook_jobs''] = Some Dir"
    by (simp add: Stat_def)
  have n1: "Stat ?fs1 ([''app'', ''webhook_jobs''] @ [long_identity]) = None"
    by (simp add: Stat_def)
  from MkdirAll_parent_step[OF _ _ MkdirAll_bare_disk_root n1] Mkdir_long_identity[OF p]
  have "MkdirAll bare_disk ([''app'', ''webhook_jobs''] @ [long_identity]) = (?fs1, Some ENAMETOOLONG)"
    by (simp add: Stat_bare_disk)
  then have "runDeploy bare_disk long_identity = (?fs1, [LogMkdirError ENAMETOOLONG])"
    by (simp add: runDeploy_def components_slot[OF match_long_identity] root_components)
  then show ?thesis
    using n1 by (simp add: Stat_bare_disk) (simp add: Stat_def)
qed

section \<open>Properties of the ingress\<close>




text \<open>
  \<^bold>\<open>C3.\<close> Marking is idempotent: a second \<open>runDeploy\<close> for the same identity, run on the
  file system the first one left, changes nothing and has the same outcome as the first;
  and after a successful marking of a valid identity the slot directories under the
  mailbox root are exactly those from before and the one of that identity.
\<close>

theorem runDeploy_idempotent:
  "runDeploy (fst (runDeploy fs r)) r = runDeploy fs r
   \<and> (repoNamePattern_MatchString r \<and> snd (runDeploy fs r) = [LogDeployTriggered r] \<longrightarrow>
        (\<forall>c. Stat (fst (runDeploy (fst (runDeploy fs r)) r)) (path_components webhookDir @ [c]) = Some Dir
              \<longleftrightarrow> c = r \<or> Stat fs (path_components webhookDir @ [c]) = Some Dir))"
proof (intro conjI impI allI)
  show "runDeploy (fst (runDeploy fs r)) r = runDeploy fs r"
    by (rule runDeploy_idem)
next
  fix c
  assume a: "repoNamePattern_MatchString r \<and> snd (runDeploy fs r) = [LogDeployTriggered r]"
  then have v: "repoNamePattern_MatchString r" and ok: "snd (runDeploy fs r) = [LogDeployTriggered r]"
    by simp_all
  let ?root = "path_components webhookDir"
  note cs = components_slot[OF v]
  have fs1: "fst (runDeploy fs r) = fst (MkdirAll fs (?root @ [r]))"
    by (simp add: runDeploy_fst cs)
  from ok have "snd (MkdirAll fs (?root @ [r])) = None"
    by (simp add: runDeploy_snd cs split: option.splits)
  then have made: "Stat (fst (runDeploy fs r)) (?root @ [r]) = Some Dir"
    unfolding fs1 by (rule MkdirAll_success)
  have other: "Stat (fst (runDeploy fs r)) (?root @ [c]) = Stat fs (?root @ [c])" if "c \<noteq> r"
  proof (rule ccontr)
    assume "Stat (fst (runDeploy fs r)) (?root @ [c]) \<noteq> Stat fs (?root @ [c])"
    then have "prefix (?root @ [c]) (?root @ [r])"
      unfolding fs1 using MkdirAll_frame by blast
    with that show False by simp
  qed
  show "Stat (fst (runDeploy (fst (runDeploy fs r)) r)) (?root @ [c]) = Some Dir
        \<longleftrightarrow> c = r \<or> Stat fs (?root @ [c]) = Some Dir"
    unfolding runDeploy_idem using made other by (cases "c = r") simp_all
qed

text \<open>
  The same on the sample mailbox: \<^verbatim>\<open>svc1\<close> is marked once, \<^verbatim>\<open>svc2\<close> is not.
\<close>

theorem runDeploy_idempotent_witness:
  "repoNamePattern_MatchString ''svc1''
   \<and> snd (runDeploy mailbox ''svc1'') = [LogDeployTriggered ''svc1'']
   \<and> runDeploy (fst (runDeploy mailbox ''svc1'')) ''svc1'' = runDeploy mailbox ''svc1''
   \<and> Stat (fst (runDeploy (fst (runDeploy mailbox ''svc1'')) ''svc1''))
        [''app'', ''webhook_jobs'', ''svc1''] = Some Dir
   \<and> Stat (fst (runDeploy (fst (runDeploy mailbox ''svc1'')) ''svc1''))
        [''app'', ''webhook_jobs'', ''svc2''] \<noteq> Some Dir"
proof -
  have h: "repoNamePattern_MatchString ''svc1''
           \<and> snd (runDeploy mailbox ''svc1'') = [LogDeployTriggered ''svc1'']"
    by (simp add: match_svc1 runDeploy_mailbox)
  from runDeploy_idempotent[of mailbox "''svc1''"] h
  have idem: "runDeploy (fst (runDeploy mailbox ''svc1'')) ''svc1'' = runDeploy mailbox ''svc1''"
    and slots: "\<And>c. Stat (fst (runDeploy (fst (runDeploy mailbox ''svc1'')) ''svc1''))
                      (path_components webhookDir @ [c]) = Some Dir
              \<longleftrightarrow> c = ''svc1'' \<or> Stat mailbox (path_components webhookDir @ [c]) = Some Dir"
    by blast+
  from slots[of "''svc1''"] slots[of "''svc2''"] h idem
  show ?thesis by (simp add: root_components Stat_mailbox)
qed

text \<open>
  \<^bold>\<open>C4.\<close> A correctly signed push request whose payload ref is not
  \<^verbatim>\<open>refs/heads/main\<close> (the deploy branch of the handler) is answered 200 with
  \<open>ignored: "not main"\<close>; no task is started and serving it leaves every file system as
  it was.
\<close>

theorem other_ref_ignored:
  assumes "Body req = Some body"
    and "GetHeader req ''X-Hub-Signature-256'' = sign secret body"
    and "GetHeader req ''X-GitHub-Event'' = ''push''"
    and "json_Unmarshal body = Inr payload"
    and "Ref payload \<noteq> ''refs/heads/main''"
  shows "resp (githubWebhookHandler secret req)
           = \<lparr>status = 200, content = [(''ignored'', JString ''not main''), (''ok'', JBool True)]\<rparr>
       \<and> spawned (githubWebhookHandler secret req) = None
       \<and> (\<forall>fs. fst (snd (serve secret fs req)) = fs)"
  using assms by (simp add: githubWebhookHandler_def serve_def verifySignature_sign)

text \<open>
  The same at a signed push to \<^verbatim>\<open>refs/heads/dev\<close>.
\<close>

theorem other_ref_ignored_witness:
  "Body (mk_request push_dev sig_push_dev ''push'') = Some push_dev
   \<and> GetHeader (mk_request push_dev sig_push_dev ''push'') ''X-Hub-Signature-256''
        = sign sample_secret push_dev
   \<and> GetHeader (mk_request push_dev sig_push_dev ''push'') ''X-GitHub-Event'' = ''push''
   \<and> json_Unmarshal push_dev = Inr \<lparr>Ref = ''refs/heads/dev'', Repository = \<lparr>Name = ''svc1''\<rparr>\<rparr>
   \<and> Ref \<lparr>Ref = ''refs/heads/dev'', Repository = \<lparr>Name = ''svc1''\<rparr>\<rparr> \<noteq> ''refs/heads/main''
   \<and> resp (githubWebhookHandler sample_secret (mk_request push_dev sig_push_dev ''push''))
        = \<lparr>status = 200, content = [(''ignored'', JString ''not main''), (''ok'', JBool True)]\<rparr>
   \<and> spawned (githubWebhookHandler sample_secret (mk_request push_dev sig_push_dev ''push'')) = None
   \<and> fst (snd (serve sample_secret mailbox (mk_request push_dev sig_push_dev ''push''))) = mailbox"
proof -
  have h1: "Body (mk_request push_dev sig_push_dev ''push'') = Some push_dev"
    by (rule GetHeader_mk_request)
  have h2: "GetHeader (mk_request push_dev sig_push_dev ''push'') ''X-Hub-Signature-256''
        = sign sample_secret push_dev"
    by (simp only: GetHeader_mk_request sign_push_dev)
  have h3: "GetHeader (mk_request push_dev sig_push_dev ''push'') ''X-GitHub-Event'' = ''push''"
    by (rule GetHeader_mk_request)
  have h5: "Ref \<lparr>Ref = ''refs/heads/dev'', Repository = \<lparr>Name = ''svc1''\<rparr>\<rparr> \<noteq> ''refs/heads/main''"
    by simp
  from other_ref_ignored[OF h1 h2 h3 json_push_dev h5] h1 h2 h3 json_push_dev h5
  show ?thesis by blast
qed

text \<open>
  \<^bold>\<open>C5\<close> (as the code has it). A correctly signed request with the event type
  \<^verbatim>\<open>push\<close> whose body \<^verbatim>\<open>json.Unmarshal\<close> rejects is answered 400 with
  \<open>error: "invalid JSON"\<close>. The event type is checked before the body is parsed.
\<close>

theorem unparseable_push_is_400:
  assumes "Body req = Some body"
    and "GetHeader req ''X-Hub-Signature-256'' = sign secret body"
    and "GetHeader req ''X-GitHub-Event'' = ''push''"
    and "json_Unmarshal body = Inl e"
  shows "resp (githubWebhookHandler secret req)
           = \<lparr>status = 400, content = [(''error'', JString ''invalid JSON'')]\<rparr>
       \<and> spawned (githubWebhookHandler secret req) = None"
  using assms by (simp add: githubWebhookHandler_def verifySignature_sign)

text \<open>
  The same at the signed body \<^verbatim>\<open>not json\<close> sent as a push.
\<close>

theorem unparseable_push_is_400_witness:
  "Body (mk_request not_json sig_not_json ''push'') = Some not_json
   \<and> GetHeader (mk_request not_json sig_not_json ''push'') ''X-Hub-Signature-256''
        = sign sample_secret not_json
   \<and> GetHeader (mk_request not_json sig_not_json ''push'') ''X-GitHub-Event'' = ''push''
   \<and> json_Unmarshal not_json = Inl SyntaxError
   \<and> resp (githubWebhookHandler sample_secret (mk_request not_json sig_not_json ''push''))
        = \<lparr>status = 400, content = [(''error'', JString ''invalid JSON'')]\<rparr>
   \<and> spawned (githubWebhookHandler sample_secret (mk_request not_json sig_not_json ''push'')) = None"
proof -
  have h1: "Body (mk_request not_json sig_not_json ''push'') = Some not_json"
    by (rule GetHeader_mk_request)
  have h2: "GetHeader (mk_request not_json sig_not_json ''push'') ''X-Hub-Signature-256''
        = sign sample_secret not_json"
    by (simp only: GetHeader_mk_request sign_not_json)
  have h3: "GetHeader (mk_request not_json sig_not_json ''push'') ''X-GitHub-Event'' = ''push''"
    by (rule GetHeader_mk_request)
  from unparseable_push_is_400[OF h1 h2 h3 json_not_json] h1 h2 h3 json_not_json
  show ?thesis by blast
qed

text \<open>
  \<^bold>\<open>C5\<close> as stated fails: the same signed, unparseable body sent with the event type
  \<^verbatim>\<open>ping\<close> is answered 200 with \<open>ignored: "not a push"\<close>.
\<close>

theorem signed_non_push_with_bad_body_is_200:
  "verifySignature sample_secret not_json sig_not_json = None
   \<and> json_Unmarshal not_json = Inl SyntaxError
   \<and> resp (githubWebhookHandler sample_secret (mk_request not_json sig_not_json ''ping''))
        = \<lparr>status = 200, content = [(''ignored'', JString ''not a push''), (''ok'', JBool True)]\<rparr>"
proof -
  have ok: "verifySignature sample_secret not_json sig_not_json = None"
    by (simp only: verifySignature_None_iff sign_not_json)
  then show ?thesis
    by (simp add: githubWebhookHandler_def GetHeader_mk_request json_not_json)
qed

text \<open>
  \<^bold>\<open>C6.\<close> A request whose body was read and whose signature header is missing, lacks the
  \<^verbatim>\<open>sha256=\<close> prefix, or carries a value that is not the hex HMAC of the body, is
  answered 401; the only log line is the signature failure, no task is started, and
  serving it leaves every file system as it was.
\<close>

theorem bad_signature_unauthorized:
  assumes body: "Body req = Some body"
    and bad: "Header req ''X-Hub-Signature-256'' = None
        \<or> \<not> prefix ''sha256='' (GetHeader req ''X-Hub-Signature-256'')
        \<or> drop 7 (GetHeader req ''X-Hub-Signature-256'')
             \<noteq> hex_EncodeToString (hmac_sha256 (bytes_of secret) (bytes_of body))"
  shows "status (resp (githubWebhookHandler secret req)) = 401
       \<and> spawned (githubWebhookHandler secret req) = None
       \<and> (\<exists>err. content (resp (githubWebhookHandler secret req)) = [(''error'', JString err)]
              \<and> logs (githubWebhookHandler secret req)
                  = [LogSignatureFailed err (GetHeader req ''X-Hub-Signature-256'' \<noteq> []) (length body)])
       \<and> (\<forall>fs. fst (snd (serve secret fs req)) = fs)"
proof -
  have "GetHeader req ''X-Hub-Signature-256'' \<noteq> sign secret body"
  proof
    assume eq: "GetHeader req ''X-Hub-Signature-256'' = sign secret body"
    then have "Header req ''X-Hub-Signature-256'' \<noteq> None"
      by (auto simp: GetHeader_def sign_def split: option.splits)
    moreover have "prefix ''sha256='' (GetHeader req ''X-Hub-Signature-256'')"
      unfolding eq sign_def by simp
    moreover have "drop 7 (GetHeader req ''X-Hub-Signature-256'')
        = hex_EncodeToString (hmac_sha256 (bytes_of secret) (bytes_of body))"
      unfolding eq by (rule sign_prefix)
    ultimately show False using bad by simp
  qed
  then have "verifySignature secret body (GetHeader req ''X-Hub-Signature-256'') \<noteq> None"
    by (rule verifySignature_other)
  then obtain err where
    err: "verifySignature secret body (GetHeader req ''X-Hub-Signature-256'') = Some err"
    by auto
  show ?thesis
    using body err by (simp add: githubWebhookHandler_def serve_def)
qed

text \<open>
  The same at the sample push carrying the signature of another body.
\<close>

theorem bad_signature_unauthorized_witness:
  "Body (mk_request push_main sig_push_dev ''push'') = Some push_main
   \<and> drop 7 (GetHeader (mk_request push_main sig_push_dev ''push'') ''X-Hub-Signature-256'')
        \<noteq> hex_EncodeToString (hmac_sha256 (bytes_of sample_secret) (bytes_of push_main))
   \<and> status (resp (githubWebhookHandler sample_secret (mk_request push_main sig_push_dev ''push''))) = 401
   \<and> spawned (githubWebhookHandler sample_secret (mk_request push_main sig_push_dev ''push'')) = None
   \<and> (\<forall>fs. fst (snd (serve sample_secret fs (mk_request push_main sig_push_dev ''push''))) = fs)"
proof -
  have h1: "Body (mk_request push_main sig_push_dev ''push'') = Some push_main"
    by (rule GetHeader_mk_request)
  have h2: "drop 7 (GetHeader (mk_request push_main sig_push_dev ''push'') ''X-Hub-Signature-256'')
        \<noteq> hex_EncodeToString (hmac_sha256 (bytes_of sample_secret) (bytes_of push_main))"
    unfolding hex_hmac_push_main GetHeader_mk_request
    by (simp add: sig_push_dev_def sig_push_main_def)
  from bad_signature_unauthorized[OF h1 disjI2[OF disjI2[OF h2]]] h1 h2
  show ?thesis by blast
qed

text \<open>
  \<^bold>\<open>C7.\<close> A correctly signed push request on \<^verbatim>\<open>refs/heads/main\<close> whose repository
  name does not match \<^verbatim>\<open>^[a-zA-Z0-9_-]+$\<close> is answered 200 with
  \<open>ignored: "invalid repository"\<close>, not an error; no task is started and serving it leaves
  every file system as it was.
\<close>

theorem invalid_identity_ignored:
  assumes "Body req = Some body"
    and "GetHeader req ''X-Hub-Signature-256'' = sign secret body"
    and "GetHeader req ''X-GitHub-Event'' = ''push''"
    and "json_Unmarshal body = Inr payload"
    and "Ref payload = ''refs/heads/main''"
    and "\<not> repoNamePattern_MatchString (Name (Repository payload))"
  shows "resp (githubWebhookHandler secret req)
           = \<lparr>status = 200,
              content = [(''ignored'', JString ''invalid repository''), (''ok'', JBool True)]\<rparr>
       \<and> spawned (githubWebhookHandler secret req) = None
       \<and> (\<forall>fs. fst (snd (serve secret fs req)) = fs)"
  using assms by (simp add: githubWebhookHandler_def serve_def verifySignature_sign)

text \<open>
  The same at a signed push whose repository name is \<^verbatim>\<open>..\<close>.
\<close>

theorem invalid_identity_ignored_witness:
  "Body (mk_request push_dotdot sig_push_dotdot ''push'') = Some push_dotdot
   \<and> GetHeader (mk_request push_dotdot sig_push_dotdot ''push'') ''X-Hub-Signature-256''
        = sign sample_secret push_dotdot
   \<and> GetHeader (mk_request push_dotdot sig_push_dotdot ''push'') ''X-GitHub-Event'' = ''push''
   \<and> json_Unmarshal push_dotdot = Inr \<lparr>Ref = ''refs/heads/main'', Repository = \<lparr>Name = ''..''\<rparr>\<rparr>
   \<and> \<not> repoNamePattern_MatchString ''..''
   \<and> resp (githubWebhookHandler sample_secret (mk_request push_dotdot sig_push_dotdot ''push''))
        = \<lparr>status = 200,
           content = [(''ignored'', JString ''invalid repository''), (''ok'', JBool True)]\<rparr>
   \<and> spawned (githubWebhookHandler sample_secret (mk_request push_dotdot sig_push_dotdot ''push'')) = None
   \<and> fst (snd (serve sample_secret mailbox (mk_request push_dotdot sig_push_dotdot ''push''))) = mailbox"
proof -
  have h1: "Body (mk_request push_dotdot sig_push_dotdot ''push'') = Some push_dotdot"
    by (rule GetHeader_mk_request)
  have h2: "GetHeader (mk_request push_dotdot sig_push_dotdot ''push'') ''X-Hub-Signature-256''
        = sign sample_secret push_dotdot"
    by (simp only: GetHeader_mk_request sign_push_dotdot)
  have h3: "GetHeader (mk_request push_dotdot sig_push_dotdot ''push'') ''X-GitHub-Event'' = ''push''"
    by (rule GetHeader_mk_request)
  have h5: "Ref \<lparr>Ref = ''refs/heads/main'', Repository = \<lparr>Name = ''..''\<rparr>\<rparr> = ''refs/heads/main''"
    by simp
  have h6: "\<not> repoNamePattern_MatchString ''..''"
    by (simp add: repoNamePattern_MatchString_def in_class_def)
  have h6': "\<not> repoNamePattern_MatchString
                (Name (Repository \<lparr>Ref = ''refs/heads/main'', Repository = \<lparr>Name = ''..''\<rparr>\<rparr>))"
    using h6 by simp
  from invalid_identity_ignored[OF h1 h2 h3 json_push_dotdot h5 h6'] h1 h2 h3 json_push_dotdot h6
  show ?thesis by blast
qed

text \<open>
  \<^bold>\<open>C9.\<close> Whenever the handler starts \<open>runDeploy\<close>, the slot path is the mailbox root
  followed by the identity as one more component: the identity is non-empty and has no
  slash and no dot, \<^verbatim>\<open>filepath.Join\<close> leaves the path as it is written, and the root is a
  strict prefix of it. The task creates nothing but missing directories on the way to
  the slot, and with the root in place (as \<open>init\<close> leaves it) the slot is the only path
  it can change.
\<close>

theorem slot_is_child_of_root:
  assumes "spawned (githubWebhookHandler secret req) = Some repository"
  shows "repoDir repository = webhookDir @ ''/'' @ repository
       \<and> repository \<noteq> [] \<and> CHR ''/'' \<notin> set repository \<and> CHR ''.'' \<notin> set repository
       \<and> path_components (repoDir repository)
            = path_components webhookDir @ [repository]
       \<and> strict_prefix (path_components webhookDir)
            (path_components (repoDir repository))
       \<and> (\<forall>fs q. Stat (fst (runDeploy fs repository)) q \<noteq> Stat fs q \<longrightarrow>
              prefix q (path_components webhookDir @ [repository]) \<and> Stat fs q = None)
       \<and> (\<forall>fs q. Stat fs (path_components webhookDir) = Some Dir \<and>
                 Stat (fst (runDeploy fs repository)) q \<noteq> Stat fs q \<longrightarrow>
              q = path_components webhookDir @ [repository])"
proof -
  have v: "repoNamePattern_MatchString repository"
    using assms by (rule spawned_valid)
  note c = components_slot[OF v]
  have "strict_prefix (path_components webhookDir) (path_components webhookDir @ [repository])"
    by (simp add: strict_prefix_def)
  moreover have "prefix q (path_components webhookDir @ [repository]) \<and> Stat fs q = None"
    if "Stat (fst (runDeploy fs repository)) q \<noteq> Stat fs q" for fs q
    using that MkdirAll_frame[of fs "path_components webhookDir @ [repository]" q]
    by (simp add: runDeploy_fst c)
  moreover have "q = path_components webhookDir @ [repository]"
    if "Stat fs (path_components webhookDir) = Some Dir"
      and "Stat (fst (runDeploy fs repository)) q \<noteq> Stat fs q" for fs q
    using that MkdirAll_child[of fs "path_components webhookDir" repository q]
    by (simp add: runDeploy_fst c)
  ultimately show ?thesis
    using Join_slot[OF v] match_props[OF v] c by (simp only: simp_thms) blast
qed

text \<open>
  The same at the sample push: the slot is \<^verbatim>\<open>/app/webhook_jobs/svc1\<close>.
\<close>

theorem slot_is_child_of_root_witness:
  "spawned (githubWebhookHandler sample_secret (mk_request push_main sig_push_main ''push''))
     = Some ''svc1''
   \<and> repoDir ''svc1'' = ''/app/webhook_jobs/svc1''
   \<and> path_components (repoDir ''svc1'') = [''app'', ''webhook_jobs'', ''svc1'']
   \<and> strict_prefix [''app'', ''webhook_jobs''] (path_components (repoDir ''svc1''))"
proof -
  have h: "spawned (githubWebhookHandler sample_secret (mk_request push_main sig_push_main ''push''))
             = Some ''svc1''"
    by (simp add: accepted_push_main)
  from slot_is_child_of_root[OF h]
  have a: "repoDir ''svc1'' = webhookDir @ ''/'' @ ''svc1''"
    and b: "path_components (repoDir ''svc1'') = path_components webhookDir @ [''svc1'']"
    and c: "strict_prefix (path_components webhookDir) (path_components (repoDir ''svc1''))"
    by blast+
  from a have "repoDir ''svc1'' = ''/app/webhook_jobs/svc1''"
    by (simp add: webhookDir_def)
  moreover from b have "path_components (repoDir ''svc1'') = [''app'', ''webhook_jobs'', ''svc1'']"
    by (simp add: root_components)
  moreover from c have "strict_prefix [''app'', ''webhook_jobs''] (path_components (repoDir ''svc1''))"
    by (simp only: root_components)
  ultimately show ?thesis
    using h by blast
qed

text \<open>
  \<^bold>\<open>C10.\<close> Signature verification is case-sensitive on the hex digits: the received value
  is compared as text with the lower-case hex encoding of the computed HMAC, so there is
  a request whose HMAC is right and is presented in upper-case hex, and it is rejected
  as a mismatch (while the lower-case form of the same digest is accepted).
\<close>

theorem verifySignature_upper_case_hex_rejected:
  "\<exists>secret body.
     verifySignature secret body (sign secret body) = None \<and>
     verifySignature secret body
       (''sha256='' @ map toUpper (hex_EncodeToString (hmac_sha256 (bytes_of secret) (bytes_of body))))
       = Some ''signature mismatch''"
proof (intro exI conjI)
  show "verifySignature ''key'' ''The quick brown fox jumps over the lazy dog''
          (sign ''key'' ''The quick brown fox jumps over the lazy dog'') = None"
    by (simp only: verifySignature_None_iff)
  show "verifySignature ''key'' ''The quick brown fox jumps over the lazy dog''
          (''sha256='' @ map toUpper (hex_EncodeToString
             (hmac_sha256 (bytes_of ''key'') (bytes_of ''The quick brown fox jumps over the lazy dog''))))
        = Some ''signature mismatch''"
    unfolding hmac_sha256_fox toUpper_digest
    by (simp add: verifySignature_def hmac_Equal_iff bytes_of_eq_iff hmac_sha256_fox)
qed

end
